theory Spec2Isabelle
  imports Complex_Main "HOL-Library.Word" "HOL-Library.Sublist"
begin

section \<open>JavaScript strings\<close>

text \<open>
  A JavaScript string is a finite sequence of 16-bit code units (UTF-16). None of the
  regular expressions of the plugin carries the \<open>u\<close> flag, so they all work on code
  units, and so does every string method used (\<open>trim\<close>, \<open>split\<close>, \<open>indexOf\<close>,
  \<open>slice\<close>, \<open>includes\<close>, \<open>startsWith\<close>).
\<close>

type_synonym jsstring = "16 word list"

definition ascii :: "string \<Rightarrow> jsstring" where
  "ascii s = map (\<lambda>c. of_char c) s"

text \<open>
  The set matched by \<open>\s\<close> in a regular expression and removed by \<open>trim()\<close>:
  WhiteSpace and LineTerminator of ECMAScript (TAB, LF, VT, FF, CR, SP, NBSP, U+1680,
  U+2000..U+200A, LS, PS, U+202F, U+205F, U+3000, BOM).
\<close>

definition isWhiteSpace :: "16 word \<Rightarrow> bool" where
  "isWhiteSpace c \<longleftrightarrow>
     c = 0x0009 \<or> c = 0x000A \<or> c = 0x000B \<or> c = 0x000C \<or> c = 0x000D \<or> c = 0x0020 \<or>
     c = 0x00A0 \<or> c = 0x1680 \<or> (0x2000 \<le> c \<and> c \<le> 0x200A) \<or> c = 0x2028 \<or>
     c = 0x2029 \<or> c = 0x202F \<or> c = 0x205F \<or> c = 0x3000 \<or> c = 0xFEFF"

text \<open>\<open>String.prototype.trim\<close>: white space removed at both ends.\<close>

definition trim :: "jsstring \<Rightarrow> jsstring" where
  "trim s = rev (dropWhile isWhiteSpace (rev (dropWhile isWhiteSpace s)))"

text \<open>\<open>s.startsWith(p)\<close> is \<^const>\<open>prefix\<close> \<open>p s\<close>.\<close>

text \<open>
  \<open>s.indexOf(sep)\<close>: the least index at which \<open>sep\<close> occurs, \<open>None\<close> for the
  \<open>-1\<close> of JavaScript.
\<close>

fun indexOf :: "jsstring \<Rightarrow> jsstring \<Rightarrow> nat option" where
  "indexOf [] sep = (if sep = [] then Some 0 else None)"
| "indexOf (c # cs) sep =
     (if prefix sep (c # cs) then Some 0
      else (case indexOf cs sep of None \<Rightarrow> None | Some i \<Rightarrow> Some (Suc i)))"

text \<open>\<open>s.includes(k)\<close>: \<open>k\<close> occurs somewhere in \<open>s\<close>.\<close>

fun includes_js :: "jsstring \<Rightarrow> jsstring \<Rightarrow> bool" where
  "includes_js [] k = (k = [])"
| "includes_js (c # cs) k = (prefix k (c # cs) \<or> includes_js cs k)"

text \<open>
  \<open>s.split(sep)\<close> for a non-empty separator: the string is scanned from the left, every
  occurrence of the separator closes the current segment and the scan resumes behind it;
  what is left at the end is the last segment. The empty string gives one empty segment.
  The accumulator holds the current segment reversed.
\<close>

function splitAux :: "jsstring \<Rightarrow> jsstring \<Rightarrow> jsstring \<Rightarrow> jsstring list" where
  "splitAux sep acc [] = [rev acc]"
| "splitAux sep acc (c # cs) =
     (if prefix sep (c # cs) then rev acc # splitAux sep [] (drop (length sep - 1) cs)
      else splitAux sep (c # acc) cs)"
  by pat_completeness auto
termination
  by (relation "measure (\<lambda>(sep, acc, s). length s)") auto

definition split_js :: "jsstring \<Rightarrow> jsstring \<Rightarrow> jsstring list" where
  "split_js s sep = splitAux sep [] s"

text \<open>\<open>parts.join(sep)\<close>.\<close>

fun join_js :: "jsstring list \<Rightarrow> jsstring \<Rightarrow> jsstring" where
  "join_js [] sep = []"
| "join_js [p] sep = p"
| "join_js (p # q # ps) sep = p @ sep @ join_js (q # ps) sep"

text \<open>\<open>a || b\<close> on strings: the empty string is falsy.\<close>

definition orElse :: "jsstring \<Rightarrow> jsstring \<Rightarrow> jsstring" where
  "orElse a b = (if a = [] then b else a)"

text \<open>The separator \<open>' - '\<close>.\<close>

definition SEP :: jsstring where
  "SEP = [0x20, 0x2D, 0x20]"

section \<open>Constants of the plugin\<close>

text \<open>
  The string constants are given by their code units. \<open>NOISE_APPS\<close> are the phone apps
  that are never reported (system user interface, biometrics, input method, launcher,
  security service); \<open>SCREEN_OFF_APPS\<close> are those among them that stand for a dark
  screen. The entries are, in this order: biometrics, system UI, Android system, system
  interface, system desktop, the Sogou input method, fingerprint UI, One UI home screen,
  security service.
\<close>

definition NOISE_APPS :: "jsstring list" where
  "NOISE_APPS =
    [[0x751F, 0x7269, 0x8BC6, 0x522B],
     [0x7CFB, 0x7EDF, 0x0020, 0x0055, 0x0049],
     [0x0041, 0x006E, 0x0064, 0x0072, 0x006F, 0x0069, 0x0064, 0x0020, 0x7CFB, 0x7EDF],
     [0x7CFB, 0x7EDF, 0x754C, 0x9762],
     [0x7CFB, 0x7EDF, 0x684C, 0x9762],
     [0x641C, 0x72D7, 0x8F93, 0x5165, 0x6CD5, 0x5C0F, 0x7C73, 0x7248],
     [0x6307, 0x7EB9, 0x0055, 0x0049],
     [0x004F, 0x006E, 0x0065, 0x0020, 0x0055, 0x0049, 0x0020, 0x4E3B, 0x5C4F, 0x5E55],
     [0x5B89, 0x5168, 0x670D, 0x52A1]]"

definition SCREEN_OFF_APPS :: "jsstring list" where
  "SCREEN_OFF_APPS =
    [[0x751F, 0x7269, 0x8BC6, 0x522B],
     [0x7CFB, 0x7EDF, 0x0020, 0x0055, 0x0049],
     [0x0041, 0x006E, 0x0064, 0x0072, 0x006F, 0x0069, 0x0064, 0x0020, 0x7CFB, 0x7EDF],
     [0x7CFB, 0x7EDF, 0x684C, 0x9762],
     [0x6307, 0x7EB9, 0x0055, 0x0049],
     [0x004F, 0x006E, 0x0065, 0x0020, 0x0055, 0x0049, 0x0020, 0x4E3B, 0x5C4F, 0x5E55]]"

text \<open>\<open>PC_STALE_MS\<close>: four hours, in milliseconds.\<close>

definition PC_STALE_MS :: int where
  "PC_STALE_MS = 4 * 60 * 60 * 1000"

text \<open>The keyword whose presence in the phone event of one person adds an advisory line.\<close>

definition RAINCORE_ZHIBA_KEYWORD :: jsstring where
  "RAINCORE_ZHIBA_KEYWORD = [0x8303, 0x5F0F, 0xFF1A, 0x8D77, 0x6E90]"

text \<open>The persons whose desktop is never shown.\<close>

definition HIDE_PC_NAMES :: "jsstring list" where
  "HIDE_PC_NAMES = [[0x97F3, 0x843D], [0x591C, 0x5408]]"

text \<open>The placeholder \<open>unknown\<close> used wherever an extraction gives the empty string.\<close>

definition UNKNOWN :: jsstring where
  "UNKNOWN = [0x672A, 0x77E5]"

section \<open>Title parsing\<close>

text \<open>White space removed at the end only: the second half of \<^const>\<open>trim\<close>.\<close>

definition trimEnd :: "jsstring \<Rightarrow> jsstring" where
  "trimEnd s = rev (dropWhile isWhiteSpace (rev s))"

text \<open>
  \<open>trimLeadingNoise\<close>: the regular expression, anchored at the start, is one or more
  characters of a class made of U+FFFD, \<open>\s\<close> and the range U+D800..U+DFFF. It
  removes the longest prefix of replacement characters, white space and code units of the
  surrogate range, paired or not, since the expression works on code units; the result
  is trimmed. The guard returns a falsy argument as it is.
\<close>

definition isLeadingNoise :: "16 word \<Rightarrow> bool" where
  "isLeadingNoise c \<longleftrightarrow> c = 0xFFFD \<or> isWhiteSpace c \<or> (0xD800 \<le> c \<and> c \<le> 0xDFFF)"

definition trimLeadingNoise :: "jsstring \<Rightarrow> jsstring" where
  "trimLeadingNoise s = (if s = [] then s else trim (dropWhile isLeadingNoise s))"

text \<open>
  \<open>parseMusicWindowTitle\<close>. The test is a regular expression, anchored at the start,
  of one character of a class, or \<open>startsWith\<close> of either note symbol. The class
  lists U+FFFD, U+D83C, U+DFB5, U+D83C, U+DFB6 and the two note symbols, which in a class
  of code units are their surrogate halves again. \<open>None\<close> is the \<open>null\<close> of the
  source.
\<close>

record music_title =
  music_app :: jsstring
  music_song :: jsstring

definition musicClass :: "16 word list" where
  "musicClass = [0xFFFD, 0xD83C, 0xDFB5, 0xD83C, 0xDFB6] @ [0xD83C, 0xDFB6] @ [0xD83C, 0xDFB5]"

definition parseMusicWindowTitle :: "jsstring \<Rightarrow> music_title option" where
  "parseMusicWindowTitle fullTitle =
     (if fullTitle = [] then None
      else
        let raw = trim fullTitle;
            isMusic = ((case raw of [] \<Rightarrow> False | c # _ \<Rightarrow> c \<in> set musicClass)
                       \<or> prefix [0xD83C, 0xDFB6] raw \<or> prefix [0xD83C, 0xDFB5] raw)
        in if \<not> isMusic then None
           else
             let rest = trimLeadingNoise raw in
             (case indexOf rest SEP of
                None \<Rightarrow>
                  Some \<lparr>music_app = orElse (trimLeadingNoise rest) UNKNOWN,
                        music_song = orElse (trimLeadingNoise rest) []\<rparr>
              | Some idx \<Rightarrow>
                  Some \<lparr>music_app = orElse (trimLeadingNoise (take idx rest)) UNKNOWN,
                        music_song =
                          orElse (trimLeadingNoise (drop (idx + length SEP) rest)) []\<rparr>))"

text \<open>
  The music rule in the words of the specification, to compare with the test of
  \<open>parseMusicWindowTitle\<close>: replacement characters, white space and unpaired surrogates
  are discarded at the start (a high surrogate followed by a low one is a pair and
  stays), and what is left has to begin with one of the two note symbols.
\<close>

definition isHighSurrogate :: "16 word \<Rightarrow> bool" where
  "isHighSurrogate c \<longleftrightarrow> 0xD800 \<le> c \<and> c \<le> 0xDBFF"

definition isLowSurrogate :: "16 word \<Rightarrow> bool" where
  "isLowSurrogate c \<longleftrightarrow> 0xDC00 \<le> c \<and> c \<le> 0xDFFF"

fun spec_discardStray :: "jsstring \<Rightarrow> jsstring" where
  "spec_discardStray [] = []"
| "spec_discardStray (c # cs) =
     (if c = 0xFFFD \<or> isWhiteSpace c \<or> isLowSurrogate c then spec_discardStray cs
      else if isHighSurrogate c \<and> (case cs of [] \<Rightarrow> True | d # _ \<Rightarrow> \<not> isLowSurrogate d)
      then spec_discardStray cs
      else c # cs)"

definition spec_isMusicTitle :: "jsstring \<Rightarrow> bool" where
  "spec_isMusicTitle t \<longleftrightarrow>
     prefix [0xD83C, 0xDFB6] (spec_discardStray t) \<or> prefix [0xD83C,
         0xDFB5] (spec_discardStray t)"

text \<open>
  \<open>parseBrowserStyleTitle\<close>: the non-empty trimmed segments; the last one is the
  application, the others, joined again, the window title.
\<close>

record browser_title =
  browser_appName :: jsstring
  browser_windowTitle :: jsstring

definition parseBrowserStyleTitle :: "jsstring \<Rightarrow> browser_title option" where
  "parseBrowserStyleTitle fullTitle =
     (if fullTitle = [] then None
      else
        let parts = filter (\<lambda>p. p \<noteq> []) (map trim (split_js fullTitle SEP))
        in if length parts < 2 then None
           else Some \<lparr>browser_appName = last parts,
                      browser_windowTitle = join_js (butlast parts) SEP\<rparr>)"

section \<open>Noise and screen-off apps\<close>

text \<open>\<open>NOISE_APPS.some((a) => (appName || '').trim() === a)\<close>, and the same for the subset.\<close>

definition isNoiseApp :: "jsstring \<Rightarrow> bool" where
  "isNoiseApp appName = list_ex (\<lambda>a. trim appName = a) NOISE_APPS"

definition isScreenOffApp :: "jsstring \<Rightarrow> bool" where
  "isScreenOffApp appName = list_ex (\<lambda>a. trim appName = a) SCREEN_OFF_APPS"

section \<open>Events\<close>

text \<open>
  One event of the status service: \<open>{ machine, window_title, app, access_time }\<close>. A
  field that is missing or \<open>null\<close> is \<open>None\<close>. The plugin reads \<open>access_time\<close>
  only through \<open>new Date(...)\<close>, so the field is kept as what that reading gives: no
  value (missing, \<open>null\<close>, empty), a value that is not a date (\<open>getTime()\<close> is
  \<open>NaN\<close>), or the milliseconds since the epoch. Milliseconds are integers below
  \<open>2^53\<close>, so their differences are exact in JavaScript numbers.
\<close>

datatype jstime = NoTime | BadTime | Millis int

record event =
  machine :: "jsstring option"
  window_title :: "jsstring option"
  app :: "jsstring option"
  access_time :: jstime

text \<open>\<open>x || ''\<close> for a field.\<close>

definition orEmpty :: "jsstring option \<Rightarrow> jsstring" where
  "orEmpty x = (case x of None \<Rightarrow> [] | Some v \<Rightarrow> v)"

text \<open>\<open>s.split(' - ')[0]\<close>; \<open>None\<close> is \<open>undefined\<close>.\<close>

definition firstSegment :: "jsstring \<Rightarrow> jsstring option" where
  "firstSegment s = (case split_js s SEP of [] \<Rightarrow> None | p # _ \<Rightarrow> Some p)"

text \<open>
  \<open>getAppNameFromEvent\<close>: the first segment of the trimmed window title, or of the
  trimmed app field when the trimmed window title is empty; used for the noise and
  screen-off tests.
\<close>

definition getAppNameFromEvent :: "event option \<Rightarrow> jsstring" where
  "getAppNameFromEvent ev =
     (case ev of
        None \<Rightarrow> []
      | Some e \<Rightarrow>
          let wt = trim (orEmpty (window_title e)) in
          (case (if wt \<noteq> [] then firstSegment wt else None) of
             Some first \<Rightarrow> trim first
           | None \<Rightarrow>
               let ap = trim (orEmpty (app e)) in
               (case (if ap \<noteq> [] then firstSegment ap else None) of
                  Some first \<Rightarrow> trim first
                | None \<Rightarrow> [])))"

text \<open>\<open>getDisplayAppNameForPhone\<close>: what is shown for a phone; a hyphen when nothing is left.\<close>

definition getDisplayAppNameForPhone :: "event option \<Rightarrow> jsstring" where
  "getDisplayAppNameForPhone ev =
     (case ev of
        None \<Rightarrow> [0x2D]
      | Some e \<Rightarrow>
          let raw = trim (orElse (orEmpty (window_title e)) (orEmpty (app e))) in
          (case firstSegment raw of
             None \<Rightarrow> [0x2D]
           | Some first \<Rightarrow> if trim first \<noteq> [] then trim first else [0x2D]))"

text \<open>\<open>getAppNameForStats\<close>: the key under which an event is counted in the daily report.\<close>

definition getAppNameForStats :: "event option \<Rightarrow> bool \<Rightarrow> jsstring" where
  "getAppNameForStats ev isPhone =
     (case ev of
        None \<Rightarrow> UNKNOWN
      | Some e \<Rightarrow>
          let raw = trim (orElse (orEmpty (window_title e)) (orEmpty (app e))) in
          (case parseMusicWindowTitle raw of
             Some music \<Rightarrow> orElse (trimLeadingNoise (music_app music)) UNKNOWN
           | None \<Rightarrow>
               if isPhone
               then orElse (trimLeadingNoise (trim (orEmpty (firstSegment raw)))) UNKNOWN
               else
                 (case parseBrowserStyleTitle raw of
                    Some browser \<Rightarrow> orElse (trim (browser_appName browser)) UNKNOWN
                  | None \<Rightarrow> orElse (trim (orEmpty (firstSegment raw))) UNKNOWN)))"

section \<open>The asleep condition\<close>

text \<open>
  \<open>pcData.access_time ? new Date(pcData.access_time).getTime() : 0\<close>; \<open>None\<close> is
  \<open>NaN\<close>.
\<close>

definition getTimeOrZero :: "event \<Rightarrow> int option" where
  "getTimeOrZero e = (case access_time e of NoTime \<Rightarrow> Some 0 | BadTime \<Rightarrow> None | Millis t \<Rightarrow> Some t)"

text \<open>
  \<open>isPcStale\<close>, with \<open>Date.now()\<close> as the argument \<open>now\<close>; a comparison with
  \<open>NaN\<close> is false.
\<close>

definition isPcStale :: "int \<Rightarrow> event option \<Rightarrow> int \<Rightarrow> bool" where
  "isPcStale now pcData maxAgeMs =
     (case pcData of
        None \<Rightarrow> True
      | Some e \<Rightarrow> (case getTimeOrZero e of None \<Rightarrow> False | Some t \<Rightarrow> now - t > maxAgeMs))"

definition isAsleepCondition :: "int \<Rightarrow> event option \<Rightarrow> event option \<Rightarrow> bool" where
  "isAsleepCondition now phoneData pcData =
     (if phoneData = None then False
      else if \<not> isScreenOffApp (getAppNameFromEvent phoneData) then False
      else isPcStale now pcData PC_STALE_MS)"

text \<open>\<open>eventContainsKeyword\<close>: containment in the window title or in the app field.\<close>

definition eventContainsKeyword :: "event option \<Rightarrow> jsstring \<Rightarrow> bool" where
  "eventContainsKeyword ev keyword =
     (case ev of
        None \<Rightarrow> False
      | Some e \<Rightarrow>
          if keyword = [] then False
          else includes_js (orEmpty (window_title e)) keyword
               \<or> includes_js (orEmpty (app e)) keyword)"

section \<open>The texts of the messages\<close>

text \<open>
  The fixed parts of the messages, by their code units; each is named after what it
  says. They are collected as \<open>text_defs\<close>.
\<close>

named_theorems text_defs

text \<open>The header \<open>phone status\<close> between two rows of six equals signs.\<close>

definition TXT_PHONE_HEADER :: jsstring where
  TXT_PHONE_HEADER_def [text_defs]: "TXT_PHONE_HEADER = [0x003D, 0x003D, 0x003D, 0x003D,
      0x003D, 0x003D, 0x0020, 0x624B, 0x673A, 0x72B6, 0x6001, 0x0020, 0x003D, 0x003D, 0x003D,
      0x003D, 0x003D, 0x003D]"

text \<open>The header \<open>computer status\<close>, likewise.\<close>

definition TXT_PC_HEADER :: jsstring where
  TXT_PC_HEADER_def [text_defs]: "TXT_PC_HEADER = [0x003D, 0x003D, 0x003D, 0x003D, 0x003D,
      0x003D, 0x0020, 0x7535, 0x8111, 0x72B6, 0x6001, 0x0020, 0x003D, 0x003D, 0x003D, 0x003D,
      0x003D, 0x003D]"

text \<open>Two spaces and \<open>no data yet\<close>.\<close>

definition TXT_NO_DATA_LINE :: jsstring where
  TXT_NO_DATA_LINE_def [text_defs]: "TXT_NO_DATA_LINE = [0x0020, 0x0020, 0x6682, 0x65E0,
      0x6570, 0x636E]"

text \<open>Two spaces.\<close>

definition TXT_INDENT :: jsstring where
  TXT_INDENT_def [text_defs]: "TXT_INDENT = [0x0020, 0x0020]"

text \<open>\<open>screen off\<close>.\<close>

definition TXT_SCREEN_OFF :: jsstring where
  TXT_SCREEN_OFF_def [text_defs]: "TXT_SCREEN_OFF = [0x7184, 0x5C4F]"

text \<open>\<open>no data yet\<close>.\<close>

definition TXT_NO_DATA :: jsstring where
  TXT_NO_DATA_def [text_defs]: "TXT_NO_DATA = [0x6682, 0x65E0, 0x6570, 0x636E]"

text \<open>\<open>from:\<close>.\<close>

definition TXT_FROM :: jsstring where
  TXT_FROM_def [text_defs]: "TXT_FROM = [0x6765, 0x81EA, 0xFF1A]"

text \<open>\<open>'s phone\<close>, after the name.\<close>

definition TXT_OF_PHONE :: jsstring where
  TXT_OF_PHONE_def [text_defs]: "TXT_OF_PHONE = [0x0020, 0x306E, 0x0020, 0x624B, 0x673A]"

text \<open>\<open>'s PC\<close>, after the name.\<close>

definition TXT_OF_PC :: jsstring where
  TXT_OF_PC_def [text_defs]: "TXT_OF_PC = [0x0020, 0x306E, 0x0020, 0x0050, 0x0043]"

text \<open>A note symbol and \<open>listening to:\<close>.\<close>

definition TXT_NOW_PLAYING :: jsstring where
  TXT_NOW_PLAYING_def [text_defs]: "TXT_NOW_PLAYING = [0xD83C, 0xDFB5, 0x6B63, 0x5728,
      0x542C, 0xFF1A]"

text \<open>A line feed, a triangle and \<open>app:\<close>.\<close>

definition TXT_NL_APP :: jsstring where
  TXT_NL_APP_def [text_defs]: "TXT_NL_APP = [0x000A, 0x25B6, 0x5E94, 0x7528, 0xFF1A]"

text \<open>A triangle and \<open>app:\<close>.\<close>

definition TXT_APP :: jsstring where
  TXT_APP_def [text_defs]: "TXT_APP = [0x25B6, 0x5E94, 0x7528, 0xFF1A]"

text \<open>A line feed, a triangle and \<open>window title:\<close>.\<close>

definition TXT_NL_WINDOW_TITLE :: jsstring where
  TXT_NL_WINDOW_TITLE_def [text_defs]: "TXT_NL_WINDOW_TITLE = [0x000A, 0x25B6, 0x7A97,
      0x53E3, 0x6807, 0x9898, 0xFF1A]"

text \<open>The app name \<open>game booster\<close>.\<close>

definition TXT_GAME_BOOSTER :: jsstring where
  TXT_GAME_BOOSTER_def [text_defs]: "TXT_GAME_BOOSTER = [0x6E38, 0x620F, 0x52A9, 0x63A8,
      0x5668]"

text \<open>The sentence \<open>playing a game, but which one cannot be told\<close>.\<close>

definition TXT_GAME_UNKNOWN :: jsstring where
  TXT_GAME_UNKNOWN_def [text_defs]: "TXT_GAME_UNKNOWN = [0x5728, 0x6253, 0x6E38, 0x620F,
      0xFF0C, 0x4F46, 0x662F, 0x91C7, 0x96C6, 0x4E0D, 0x5230, 0x5728, 0x6253, 0x4EC0, 0x4E48,
      0x795E, 0x79D8, 0x6E38, 0x620F]"

text \<open>\<open>updated:\<close>.\<close>

definition TXT_UPDATED :: jsstring where
  TXT_UPDATED_def [text_defs]: "TXT_UPDATED = [0x66F4, 0x65B0, 0x65F6, 0x95F4, 0xFF1A]"

text \<open>\<open>unknown window\<close>.\<close>

definition TXT_UNKNOWN_WINDOW :: jsstring where
  TXT_UNKNOWN_WINDOW_def [text_defs]: "TXT_UNKNOWN_WINDOW = [0x672A, 0x77E5, 0x7A97, 0x53E3]"

text \<open>The symbol PERSONAL COMPUTER, U+1F4BB.\<close>

definition TXT_LAPTOP :: jsstring where
  TXT_LAPTOP_def [text_defs]: "TXT_LAPTOP = [0xD83D, 0xDCBB]"

text \<open>\<open>'s computer is running:\<close>, after the name.\<close>

definition TXT_PC_RUNNING :: jsstring where
  TXT_PC_RUNNING_def [text_defs]: "TXT_PC_RUNNING = [0x7684, 0x7535, 0x8111, 0x6B63, 0x5728,
      0x8FD0, 0x884C, 0xFF1A]"

text \<open>\<open>from: PIMENG's iQOO13\<close>.\<close>

definition TXT_PIMENG_FROM_PHONE :: jsstring where
  TXT_PIMENG_FROM_PHONE_def [text_defs]: "TXT_PIMENG_FROM_PHONE = [0x6765, 0x81EA, 0xFF1A,
      0x76AE, 0x68A6, 0x0020, 0x306E, 0x0020, 0x0069, 0x0051, 0x004F, 0x004F, 0x0031, 0x0033]"

text \<open>\<open>from: PIMENG's PC\<close>.\<close>

definition TXT_PIMENG_FROM_PC :: jsstring where
  TXT_PIMENG_FROM_PC_def [text_defs]: "TXT_PIMENG_FROM_PC = [0x6765, 0x81EA, 0xFF1A, 0x76AE,
      0x68A6, 0x0020, 0x306E, 0x0020, 0x0050, 0x0043]"

text \<open>A note symbol and \<open>PIMENG is listening to music:\<close>.\<close>

definition TXT_PIMENG_MUSIC :: jsstring where
  TXT_PIMENG_MUSIC_def [text_defs]: "TXT_PIMENG_MUSIC = [0xD83C, 0xDFB5, 0x76AE, 0x68A6,
      0x6B63, 0x5728, 0x542C, 0x97F3, 0x4E50, 0xFF1A]"

text \<open>A triangle and \<open>track:\<close>.\<close>

definition TXT_TRACK :: jsstring where
  TXT_TRACK_def [text_defs]: "TXT_TRACK = [0x25B6, 0x66F2, 0x76EE, 0xFF1A]"

text \<open>A line feed, a triangle and \<open>with\<close>.\<close>

definition TXT_NL_WITH :: jsstring where
  TXT_NL_WITH_def [text_defs]: "TXT_NL_WITH = [0x000A, 0x25B6, 0x7528]"

text \<open>\<open>listened\<close>, after the app.\<close>

definition TXT_LISTENED :: jsstring where
  TXT_LISTENED_def [text_defs]: "TXT_LISTENED = [0x542C, 0x7684]"

text \<open>The symbol U+267F U+FE0F and \<open>PIMENG is\<close>.\<close>

definition TXT_PIMENG_DOING :: jsstring where
  TXT_PIMENG_DOING_def [text_defs]: "TXT_PIMENG_DOING = [0x267F, 0xFE0F, 0x76AE, 0x68A6,
      0x6B63, 0x5728]"

text \<open>The app name of a game.\<close>

definition TXT_DELTA_FORCE :: jsstring where
  TXT_DELTA_FORCE_def [text_defs]: "TXT_DELTA_FORCE = [0x4E09, 0x89D2, 0x6D32, 0x884C, 0x52A8]"

text \<open>The two characters shown for it.\<close>

definition TXT_DELTA_FORCE_TEXT :: jsstring where
  TXT_DELTA_FORCE_TEXT_def [text_defs]: "TXT_DELTA_FORCE_TEXT = [0x5F97, 0x5403]"

text \<open>\<open>mystery app (collected inaccurately)\<close> and an opening corner bracket.\<close>

definition TXT_MYSTERY_OPEN :: jsstring where
  TXT_MYSTERY_OPEN_def [text_defs]: "TXT_MYSTERY_OPEN = [0x795E, 0x79D8, 0x5E94, 0x7528,
      0xFF08, 0x91C7, 0x96C6, 0x4E0D, 0x51C6, 0x786E, 0xFF09, 0x300C]"

text \<open>The closing corner bracket.\<close>

definition TXT_MYSTERY_CLOSE :: jsstring where
  TXT_MYSTERY_CLOSE_def [text_defs]: "TXT_MYSTERY_CLOSE = [0x300D]"

text \<open>The app name \<open>game box\<close>.\<close>

definition TXT_GAME_BOX :: jsstring where
  TXT_GAME_BOX_def [text_defs]: "TXT_GAME_BOX = [0x6E38, 0x620F, 0x9B54, 0x76D2]"

text \<open>The app name \<open>PiliPlus\<close>.\<close>

definition TXT_PILIPLUS :: jsstring where
  TXT_PILIPLUS_def [text_defs]: "TXT_PILIPLUS = [0x0050, 0x0069, 0x006C, 0x0069, 0x0050,
      0x006C, 0x0075, 0x0073]"

text \<open>\<open>bilibili (third-party client)\<close>.\<close>

definition TXT_PILIPLUS_TEXT :: jsstring where
  TXT_PILIPLUS_TEXT_def [text_defs]: "TXT_PILIPLUS_TEXT = [0x54D4, 0x54E9, 0x54D4, 0x54E9,
      0xFF08, 0x7B2C, 0x4E09, 0x65B9, 0x5BA2, 0x6237, 0x7AEF, 0xFF09]"

text \<open>\<open>unknown app\<close>.\<close>

definition TXT_UNKNOWN_APP :: jsstring where
  TXT_UNKNOWN_APP_def [text_defs]: "TXT_UNKNOWN_APP = [0x672A, 0x77E5, 0x5E94, 0x7528]"

text \<open>The computer symbol and \<open>PIMENG's computer is running:\<close>.\<close>

definition TXT_PIMENG_PC_RUNNING :: jsstring where
  TXT_PIMENG_PC_RUNNING_def [text_defs]: "TXT_PIMENG_PC_RUNNING = [0xD83D, 0xDCBB, 0x76AE,
      0x68A6, 0x7684, 0x7535, 0x8111, 0x6B63, 0x5728, 0x8FD0, 0x884C, 0xFF1A]"

text \<open>The opening bracket U+3010 before the name.\<close>

definition TXT_OPEN :: jsstring where
  TXT_OPEN_def [text_defs]: "TXT_OPEN = [0x3010]"

text \<open>The closing bracket U+3011, a line feed, two spaces, \<open>no record yet\<close>, a line feed.\<close>

definition TXT_NO_RECORD :: jsstring where
  TXT_NO_RECORD_def [text_defs]: "TXT_NO_RECORD = [0x3011, 0x000A, 0x0020, 0x0020, 0x6682,
      0x65E0, 0x8BB0, 0x5F55, 0x000A]"

text \<open>The closing bracket, a line feed and two spaces.\<close>

definition TXT_CLOSE_INDENT :: jsstring where
  TXT_CLOSE_INDENT_def [text_defs]: "TXT_CLOSE_INDENT = [0x3011, 0x000A, 0x0020, 0x0020]"

text \<open>The closing bracket and a line feed.\<close>

definition TXT_CLOSE :: jsstring where
  TXT_CLOSE_def [text_defs]: "TXT_CLOSE = [0x3011, 0x000A]"

text \<open>\<open>seems to be asleep\<close> and a line feed.\<close>

definition TXT_ASLEEP :: jsstring where
  TXT_ASLEEP_def [text_defs]: "TXT_ASLEEP = [0x597D, 0x50CF, 0x7761, 0x7740, 0x4E86, 0x5462,
      0x000A]"

text \<open>The device label \<open>phone\<close>.\<close>

definition TXT_PHONE_LABEL :: jsstring where
  TXT_PHONE_LABEL_def [text_defs]: "TXT_PHONE_LABEL = [0x624B, 0x673A]"

text \<open>The device label \<open>computer\<close>.\<close>

definition TXT_PC_LABEL :: jsstring where
  TXT_PC_LABEL_def [text_defs]: "TXT_PC_LABEL = [0x7535, 0x8111]"

text \<open>The triangle U+25B6 that starts the header of a device.\<close>

definition TXT_TRIANGLE :: jsstring where
  TXT_TRIANGLE_def [text_defs]: "TXT_TRIANGLE = [0x25B6]"

text \<open>A space and \<open>used\<close>.\<close>

definition TXT_USED :: jsstring where
  TXT_USED_def [text_defs]: "TXT_USED = [0x0020, 0x7528, 0x4E86]"

text \<open>A space and \<open>share\<close>.\<close>

definition TXT_SHARE :: jsstring where
  TXT_SHARE_def [text_defs]: "TXT_SHARE = [0x0020, 0x5360, 0x6BD4]"

text \<open>\<open>hours\<close>.\<close>

definition TXT_HOURS :: jsstring where
  TXT_HOURS_def [text_defs]: "TXT_HOURS = [0x5C0F, 0x65F6]"

text \<open>\<open>minutes\<close>.\<close>

definition TXT_MINUTES :: jsstring where
  TXT_MINUTES_def [text_defs]: "TXT_MINUTES = [0x5206, 0x949F]"

text \<open>\<open>less than 1 minute\<close>.\<close>

definition TXT_UNDER_A_MINUTE :: jsstring where
  TXT_UNDER_A_MINUTE_def [text_defs]: "TXT_UNDER_A_MINUTE = [0x4E0D, 0x8DB3, 0x0031, 0x5206,
      0x949F]"

text \<open>\<open>today, up to now,\<close> after the name.\<close>

definition TXT_TODAY_SO_FAR :: jsstring where
  TXT_TODAY_SO_FAR_def [text_defs]: "TXT_TODAY_SO_FAR = [0x4ECA, 0x5929, 0x622A, 0x6B62,
      0x76EE, 0x524D, 0x6709]"

text \<open>The percent sign and the rest of the first sentence of the report.\<close>

definition TXT_TODAY_REST :: jsstring where
  TXT_TODAY_REST_def [text_defs]: "TXT_TODAY_REST = [0x0025, 0x7684, 0x65F6, 0x95F4, 0x90FD,
      0x88AB, 0x6211, 0x89C6, 0x5978, 0x5230, 0x4E86, 0x5462, 0x0020, 0x8FD9, 0x662F, 0x4ED6,
      0x7684, 0x8BBE, 0x5907, 0x4ECA, 0x5929, 0x7684, 0x4F7F, 0x7528, 0x60C5, 0x51B5]"

text \<open>\<open>has not uploaded anything today\<close>, after the name.\<close>

definition TXT_NOTHING_TODAY :: jsstring where
  TXT_NOTHING_TODAY_def [text_defs]: "TXT_NOTHING_TODAY = [0x4ECA, 0x5929, 0x8FD8, 0x6CA1,
      0x6709, 0x4E0A, 0x4F20, 0x8FC7, 0x6570, 0x636E, 0x5462, 0xFF0C, 0x89C6, 0x5978, 0x4E0D,
      0x5230, 0x54E6]"

text \<open>Three app names that are shown as a mystery app.\<close>

definition TXT_MYSTERY_APPS :: "jsstring list" where
  TXT_MYSTERY_APPS_def [text_defs]: "TXT_MYSTERY_APPS = [[0x4EA4, 0x4E92, 0x6C60], [0x7CFB,
      0x7EDF, 0x684C, 0x9762], [0x7CFB, 0x7EDF, 0x754C, 0x9762, 0x7EC4, 0x4EF6]]"

section \<open>Phones and desktops\<close>

text \<open>
  \<open>isPhoneDevice\<close>: the machine name is lowered and searched, without regard to case,
  for one of five words. The words are ASCII, none of them has a \<open>k\<close> and none ends
  in \<open>i\<close>, so the only characters that count are the ASCII letters: \<open>toLowerCase\<close>
  sends no other character to one that can take part in a match (U+0130 becomes
  \<open>i\<close> followed by U+0307, U+212A becomes \<open>k\<close>), and a case-insensitive expression
  without the \<open>u\<close> flag never matches a character above U+007F with an ASCII one.
\<close>

definition toLowerAscii :: "16 word \<Rightarrow> 16 word" where
  "toLowerAscii c = (if 0x41 \<le> c \<and> c \<le> 0x5A then c + 0x20 else c)"

definition PHONE_WORDS :: "jsstring list" where
  "PHONE_WORDS =
     [ascii ''phone'', ascii ''android'', ascii ''mobile'', ascii ''iq13'', ascii ''iqoo'']"

definition isPhoneDevice :: "jsstring option \<Rightarrow> bool" where
  "isPhoneDevice mach =
     (case mach of
        None \<Rightarrow> False
      | Some m \<Rightarrow>
          if m = [] then False
          else list_ex (\<lambda>k. includes_js (map toLowerAscii m) k) PHONE_WORDS)"

definition PIMENG_PHONE_MACHINE :: jsstring where
  "PIMENG_PHONE_MACHINE = ascii ''pimeng-iq13''"

definition PIMENG_PC_MACHINE :: jsstring where
  "PIMENG_PC_MACHINE = ascii ''pimeng-pc''"

section \<open>Numbers as text\<close>

text \<open>The decimal digits of a natural number, as \<open>String(n)\<close> gives them below \<open>10^21\<close>.\<close>

function showNat :: "nat \<Rightarrow> jsstring" where
  "showNat n = (if n < 10 then [0x30 + of_nat n] else showNat (n div 10) @ [0x30 + of_nat (n mod 10)])"
  by pat_completeness auto
termination
  by (relation "measure (\<lambda>n. n)") auto

declare showNat.simps [simp del]

definition showInt :: "int \<Rightarrow> jsstring" where
  "showInt i = (if i < 0 then 0x2D # showNat (nat (- i)) else showNat (nat i))"

text \<open>\<open>String(n).padStart(2, '0')\<close>.\<close>

definition pad2 :: "nat \<Rightarrow> jsstring" where
  "pad2 n = (if n < 10 then 0x30 # showNat n else showNat n)"

section \<open>The time of an event\<close>

text \<open>
  \<open>fmtTime\<close> shows month, day, hours and minutes of the access time in the local time
  of the host. The local reading of a time stamp is the host's: it is the argument
  \<open>clock\<close>, which gives \<open>getMonth()\<close>, \<open>getDate()\<close>, \<open>getHours()\<close> and
  \<open>getMinutes()\<close> for the milliseconds since the epoch. For a value that is not a
  date, all four are \<open>NaN\<close>.
\<close>

type_synonym clock = "int \<Rightarrow> nat \<times> nat \<times> nat \<times> nat"

definition fmtTime :: "clock \<Rightarrow> event option \<Rightarrow> jsstring" where
  "fmtTime clock ev =
     (case ev of
        None \<Rightarrow> ascii ''--''
      | Some e \<Rightarrow>
          (case access_time e of
             NoTime \<Rightarrow> ascii ''--''
           | BadTime \<Rightarrow> ascii ''NaN-NaN NaN:NaN''
           | Millis t \<Rightarrow>
               (case clock t of
                  (month, day, hours, minutes) \<Rightarrow>
                    pad2 (month + 1) @ ascii ''-'' @ pad2 day @ ascii '' '' @ pad2 hours
                    @ ascii '':'' @ pad2 minutes)))"

section \<open>The status of one person\<close>

text \<open>
  The content of the desktop block is chosen in three steps, the same in
  \<open>formatPersonBlock\<close> and \<open>formatPimengMessage\<close>: a music title, else a browser-style
  title, else a plain title whose app is the first segment (or the placeholder). The
  choice is kept as a value, and \<open>pcContent\<close> is its text.
\<close>

datatype classified_title =
    Music jsstring jsstring
  | Browser jsstring jsstring
  | Plain jsstring jsstring

definition classifyTitle :: "jsstring \<Rightarrow> classified_title" where
  "classifyTitle fullWindowTitle =
     (case parseMusicWindowTitle fullWindowTitle of
        Some music \<Rightarrow> Music (music_app music) (music_song music)
      | None \<Rightarrow>
          (case parseBrowserStyleTitle fullWindowTitle of
             Some browser \<Rightarrow> Browser (browser_appName browser) (browser_windowTitle browser)
           | None \<Rightarrow>
               Plain (orElse (orEmpty (firstSegment fullWindowTitle)) UNKNOWN) fullWindowTitle))"

definition pcContent :: "jsstring \<Rightarrow> jsstring" where
  "pcContent fullWindowTitle =
     (case classifyTitle fullWindowTitle of
        Music a s \<Rightarrow> TXT_NOW_PLAYING @ s @ TXT_NL_APP @ a
      | Browser a w \<Rightarrow> TXT_APP @ a @ TXT_NL_WINDOW_TITLE @ w
      | Plain a w \<Rightarrow> TXT_APP @ a @ TXT_NL_WINDOW_TITLE @ w)"

text \<open>\<open>lines.join('\n')\<close>.\<close>

definition joinLines :: "jsstring list \<Rightarrow> jsstring" where
  "joinLines ls = join_js ls [0x0A]"

text \<open>
  \<open>formatPersonBlock\<close>: a phone block and, unless hidden, a desktop block, each a
  list of lines joined by line feeds.
\<close>

definition formatPersonBlock ::
  "clock \<Rightarrow> jsstring \<Rightarrow> event option \<Rightarrow> event option \<Rightarrow> bool \<Rightarrow> jsstring" where
  "formatPersonBlock clock name phoneData pcData hidePc =
     (let phoneBlock =
        (case phoneData of
           None \<Rightarrow> joinLines [TXT_PHONE_HEADER, TXT_NO_DATA_LINE, []]
         | Some p \<Rightarrow>
             let appName = getAppNameFromEvent phoneData in
             if isNoiseApp appName
             then
               let text = (if isScreenOffApp appName then TXT_SCREEN_OFF else TXT_NO_DATA)
               in joinLines [TXT_PHONE_HEADER, TXT_INDENT @ text,
                             TXT_FROM @ name @ TXT_OF_PHONE, []]
             else
               let rawTitle = trim (orElse (orEmpty (window_title p)) (orEmpty (app p)));
                   content =
                     (case parseMusicWindowTitle rawTitle of
                        Some music \<Rightarrow>
                          TXT_NOW_PLAYING @ music_song music @ TXT_NL_APP @ music_app music
                      | None \<Rightarrow>
                          let shown = getDisplayAppNameForPhone phoneData in
                          if shown = TXT_GAME_BOOSTER
                          then TXT_GAME_UNKNOWN
                          else TXT_APP @ shown)
               in joinLines [TXT_PHONE_HEADER, content,
                             TXT_UPDATED @ fmtTime clock phoneData,
                             TXT_FROM @ name @ TXT_OF_PHONE, []])
      in if hidePc then phoneBlock
         else
           let pcBlock =
             (case pcData of
                None \<Rightarrow>
                  joinLines [TXT_PC_HEADER, TXT_NO_DATA_LINE,
                             TXT_FROM @ name @ TXT_OF_PC]
              | Some pc \<Rightarrow>
                  let fullWindowTitle = orElse (orEmpty (window_title pc)) TXT_UNKNOWN_WINDOW
                  in joinLines [TXT_PC_HEADER,
                                TXT_LAPTOP @ name @ TXT_PC_RUNNING,
                                pcContent fullWindowTitle,
                                TXT_UPDATED @ fmtTime clock pcData,
                                TXT_FROM @ name @ TXT_OF_PC])
           in phoneBlock @ [0x0A] @ pcBlock)"

text \<open>
  \<open>formatPimengMessage\<close>: the same two blocks for the one person who has fixed device
  names, with a few phone apps replaced by fixed texts.
\<close>

definition formatPimengMessage :: "clock \<Rightarrow> event option \<Rightarrow> event option \<Rightarrow> jsstring" where
  "formatPimengMessage clock phoneData pcData =
     (let phoneBlock =
        (case phoneData of
           None \<Rightarrow> joinLines [TXT_PHONE_HEADER, TXT_NO_DATA_LINE, []]
         | Some p \<Rightarrow>
             let appNamePimeng = getAppNameFromEvent phoneData in
             if isNoiseApp appNamePimeng
             then
               let text = (if isScreenOffApp appNamePimeng then TXT_SCREEN_OFF else TXT_NO_DATA)
               in joinLines [TXT_PHONE_HEADER, TXT_INDENT @ text,
                             TXT_PIMENG_FROM_PHONE, []]
             else
               let wt = orEmpty (window_title p);
                   prefixAndContent =
                     (case parseMusicWindowTitle wt of
                        Some music \<Rightarrow>
                          (TXT_PIMENG_MUSIC,
                           TXT_TRACK @ music_song music @ TXT_NL_WITH @ music_app music @ TXT_LISTENED)
                      | None \<Rightarrow>
                          let appName = orEmpty (firstSegment wt) in
                          (TXT_PIMENG_DOING,
                           if appName = TXT_DELTA_FORCE then TXT_DELTA_FORCE_TEXT
                           else if appName \<in> set TXT_MYSTERY_APPS
                           then TXT_MYSTERY_OPEN @ appName @ TXT_MYSTERY_CLOSE
                           else if appName = TXT_GAME_BOX
                           then TXT_GAME_UNKNOWN
                           else if appName = TXT_PILIPLUS then TXT_PILIPLUS_TEXT
                           else TXT_APP @ orElse appName TXT_UNKNOWN_APP))
               in joinLines [TXT_PHONE_HEADER, fst prefixAndContent,
                             snd prefixAndContent,
                             TXT_UPDATED @ fmtTime clock phoneData,
                             TXT_PIMENG_FROM_PHONE, []])
      in let pcBlock =
           (case pcData of
              None \<Rightarrow>
                joinLines [TXT_PC_HEADER, TXT_NO_DATA_LINE, TXT_PIMENG_FROM_PC]
            | Some pc \<Rightarrow>
                let fullWindowTitle = orElse (orEmpty (window_title pc)) TXT_UNKNOWN_WINDOW
                in joinLines [TXT_PC_HEADER, TXT_PIMENG_PC_RUNNING,
                              pcContent fullWindowTitle,
                              TXT_UPDATED @ fmtTime clock pcData,
                              TXT_PIMENG_FROM_PC])
         in phoneBlock @ [0x0A] @ pcBlock)"

text \<open>
  \<open>formatMessageByPerson\<close>, with \<open>Date.now()\<close> as \<open>now\<close>. \<open>RAINCORE\<close> is the
  person for whom the keyword adds the advisory line \<open>ZHIBA_SUFFIX\<close>; \<open>PIMENG\<close> is
  the person with the fixed device names.
\<close>

definition RAINCORE :: jsstring where
  "RAINCORE = [0x96E8, 0x6838]"

definition PIMENG :: jsstring where
  "PIMENG = [0x76AE, 0x68A6]"

definition ZHIBA_SUFFIX :: jsstring where
  "ZHIBA_SUFFIX = [0x000A, 0x96E8, 0x6838, 0x5728, 0x63A8, 0x5236, 0x9738, 0x5462, 0x002E,
      0x002E, 0x002E, 0x4E0D, 0x8981, 0x6253, 0x6270, 0x4ED6]"

definition asleepMessage :: "jsstring \<Rightarrow> jsstring" where
  "asleepMessage name = TXT_OPEN @ name @ TXT_CLOSE_INDENT @ name @ TXT_ASLEEP"

definition formatMessageByPerson :: "clock \<Rightarrow> int \<Rightarrow> jsstring \<Rightarrow> event list \<Rightarrow> jsstring" where
  "formatMessageByPerson clock now name events =
     (if events = [] then TXT_OPEN @ name @ TXT_NO_RECORD
      else if name = PIMENG
      then
        let phoneData = find (\<lambda>e. machine e = Some PIMENG_PHONE_MACHINE) events;
            pcData = find (\<lambda>e. machine e = Some PIMENG_PC_MACHINE) events
        in if isAsleepCondition now phoneData pcData then asleepMessage name
           else formatPimengMessage clock phoneData pcData
      else
        let phoneData = find (\<lambda>e. isPhoneDevice (machine e)) events;
            pcData = (if name \<in> set HIDE_PC_NAMES then None
                      else find (\<lambda>e. \<not> isPhoneDevice (machine e)) events)
        in if isAsleepCondition now phoneData pcData then asleepMessage name
           else
             let msg = TXT_OPEN @ name @ TXT_CLOSE
                       @ formatPersonBlock clock name phoneData pcData (name \<in> set HIDE_PC_NAMES)
             in if name = RAINCORE \<and> phoneData \<noteq> None
                   \<and> eventContainsKeyword phoneData RAINCORE_ZHIBA_KEYWORD
                then msg @ ZHIBA_SUFFIX
                else msg)"

section \<open>The daily report\<close>

text \<open>
  The numbers of the report are JavaScript numbers (doubles). Each arithmetic operation
  gives the exact result rounded to a double; the rounding is the argument \<open>rnd\<close> of
  the definitions below, and the properties proved need of it only what rounding to
  nearest has: it is monotone and leaves 0, 1 and 100 as they are. Infinite values and
  \<open>NaN\<close> are not modelled. Counts and the elapsed seconds are integers far below
  \<open>2^53\<close> and exact.
\<close>

type_synonym rounding = "real \<Rightarrow> real"

definition fmul :: "rounding \<Rightarrow> real \<Rightarrow> real \<Rightarrow> real" where
  "fmul rnd x y = rnd (x * y)"

definition fdiv :: "rounding \<Rightarrow> real \<Rightarrow> real \<Rightarrow> real" where
  "fdiv rnd x y = rnd (x / y)"

definition fadd :: "rounding \<Rightarrow> real \<Rightarrow> real \<Rightarrow> real" where
  "fadd rnd x y = rnd (x + y)"

text \<open>
  The heartbeat interval:
  \<open>Number(c.heartbeatIntervalSeconds) > 0 ? Number(c.heartbeatIntervalSeconds) : 60\<close>.
  The configured value is \<open>None\<close> when it is missing or not a number.
\<close>

definition HEARTBEAT_INTERVAL_SECONDS :: real where
  "HEARTBEAT_INTERVAL_SECONDS = 60"

definition heartbeatSec :: "real option \<Rightarrow> real" where
  "heartbeatSec cfg =
     (case cfg of
        None \<Rightarrow> HEARTBEAT_INTERVAL_SECONDS
      | Some h \<Rightarrow> if h > 0 then h else HEARTBEAT_INTERVAL_SECONDS)"

text \<open>\<open>x % y\<close>: the remainder has the sign of \<open>x\<close> and is exact.\<close>

definition jsRem :: "real \<Rightarrow> real \<Rightarrow> real" where
  "jsRem x y = x - y * of_int (if 0 \<le> x / y then \<lfloor>x / y\<rfloor> else \<lceil>x / y\<rceil>)"

text \<open>\<open>formatDuration\<close>: hours and minutes, or \<open>less than 1 minute\<close>.\<close>

definition formatDuration :: "rounding \<Rightarrow> real \<Rightarrow> jsstring" where
  "formatDuration rnd seconds =
     (let h = \<lfloor>fdiv rnd seconds 3600\<rfloor>;
          m = \<lfloor>fdiv rnd (jsRem seconds 3600) 60\<rfloor>
      in if h > 0 \<and> m > 0 then showInt h @ TXT_HOURS @ showInt m @ TXT_MINUTES
         else if h > 0 then showInt h @ TXT_HOURS
         else if m > 0 then showInt m @ TXT_MINUTES
         else TXT_UNDER_A_MINUTE)"

text \<open>
  \<open>x.toFixed(1)\<close> for \<open>|x| < 10^21\<close>: the number of tenths nearest to \<open>|x|\<close>, the
  larger one of two, written with a point before its last digit, and the sign.
\<close>

definition tenths :: "real \<Rightarrow> nat" where
  "tenths x = nat \<lfloor>\<bar>x\<bar> * 10 + 1 / 2\<rfloor>"

definition toFixed1 :: "real \<Rightarrow> jsstring" where
  "toFixed1 x =
     (let body = showNat (tenths x div 10) @ [0x2E] @ showNat (tenths x mod 10)
      in if x < 0 then 0x2D # body else body)"

text \<open>
  The counts per app: \<open>byApp[appName] = (byApp[appName] || 0) + 1\<close> on an object
  without prototype. The keys are kept in the order of their first insertion.
\<close>

fun tally :: "(jsstring \<times> nat) list \<Rightarrow> jsstring \<Rightarrow> (jsstring \<times> nat) list" where
  "tally [] k = [(k, 1)]"
| "tally ((k', n) # rest) k = (if k' = k then (k', n + 1) # rest else (k', n) # tally rest k)"

text \<open>
  \<open>Object.entries\<close> lists the keys that are array indices first (a decimal numeral
  without leading zero, below \<open>2^32 - 1\<close>), in ascending order, and then the other
  keys in the order of insertion.
\<close>

definition digitsValue :: "jsstring \<Rightarrow> int" where
  "digitsValue k = foldl (\<lambda>n c. 10 * n + uint (c - 0x30)) 0 k"

definition arrayIndex :: "jsstring \<Rightarrow> int option" where
  "arrayIndex k =
     (if k \<noteq> [] \<and> list_all (\<lambda>c. 0x30 \<le> c \<and> c \<le> 0x39) k \<and> (k = [0x30] \<or> hd k \<noteq> 0x30)
         \<and> digitsValue k < 2 ^ 32 - 1
      then Some (digitsValue k) else None)"

definition objectEntries :: "(jsstring \<times> nat) list \<Rightarrow> (jsstring \<times> nat) list" where
  "objectEntries byApp =
     sort_key (\<lambda>(k, n). case arrayIndex k of Some i \<Rightarrow> i | None \<Rightarrow> 0)
       (filter (\<lambda>(k, n). arrayIndex k \<noteq> None) byApp)
     @ filter (\<lambda>(k, n). arrayIndex k = None) byApp"

text \<open>
  The buckets of a device, sorted by \<open>(a, b) => b.seconds - a.seconds\<close>: descending
  seconds, and the sort is stable.
\<close>

record app_bucket =
  bucket_app :: jsstring
  bucket_count :: nat
  bucket_seconds :: real

definition sortedBuckets :: "rounding \<Rightarrow> real \<Rightarrow> event list \<Rightarrow> bool \<Rightarrow> app_bucket list" where
  "sortedBuckets rnd heartbeat deviceEvents isPhone =
     (let byApp = foldl tally [] (map (\<lambda>ev. getAppNameForStats (Some ev) isPhone) deviceEvents)
      in sort_key (\<lambda>b. - bucket_seconds b)
           (map (\<lambda>(k, n). \<lparr>bucket_app = k, bucket_count = n,
                            bucket_seconds = fmul rnd (real n) heartbeat\<rparr>)
              (objectEntries byApp)))"

text \<open>
  The share of a bucket:
  \<open>coveredSeconds > 0 ? ((item.seconds / coveredSeconds) * 100).toFixed(1) : '0'\<close>;
  \<open>None\<close> is the second branch.
\<close>

definition bucketPercent :: "rounding \<Rightarrow> real \<Rightarrow> real \<Rightarrow> real option" where
  "bucketPercent rnd seconds covered =
     (if covered > 0 then Some (fmul rnd (fdiv rnd seconds covered) 100) else None)"

definition percentText :: "real option \<Rightarrow> jsstring" where
  "percentText p = (case p of None \<Rightarrow> ascii ''0'' | Some x \<Rightarrow> toFixed1 x)"

text \<open>
  \<open>buildDeviceBlock\<close>: without events, no lines at all; otherwise the header of the
  device and one numbered line per bucket (app, duration, share).
\<close>

record device_block =
  block_lines :: "jsstring list"
  block_coveredSeconds :: real
  block_percentOfDay :: "real option"
  block_percentToNow :: "real option"

definition bucketLine :: "rounding \<Rightarrow> real \<Rightarrow> nat \<Rightarrow> app_bucket \<Rightarrow> jsstring" where
  "bucketLine rnd covered i item =
     showNat (i + 1) @ ascii ''.'' @ bucket_app item @ TXT_USED
     @ formatDuration rnd (bucket_seconds item) @ TXT_SHARE
     @ percentText (bucketPercent rnd (bucket_seconds item) covered) @ ascii ''%''"

definition buildDeviceBlock ::
  "rounding \<Rightarrow> real \<Rightarrow> real \<Rightarrow> event list \<Rightarrow> jsstring \<Rightarrow> device_block" where
  "buildDeviceBlock rnd heartbeat elapsedSeconds deviceEvents deviceLabel =
     (if deviceEvents = []
      then \<lparr>block_lines = [], block_coveredSeconds = 0, block_percentOfDay = Some 0,
            block_percentToNow = None\<rparr>
      else
        let totalHeartbeats = length deviceEvents;
            covered = fmul rnd (real totalHeartbeats) heartbeat;
            sorted = sortedBuckets rnd heartbeat deviceEvents (deviceLabel = TXT_PHONE_LABEL)
        in \<lparr>block_lines =
               (TXT_TRIANGLE @ deviceLabel)
               # map (\<lambda>(i, item). bucketLine rnd covered i item) (enumerate 0 sorted),
             block_coveredSeconds = covered,
             block_percentOfDay = None,
             block_percentToNow =
               Some (min 100 (fmul rnd (fdiv rnd covered elapsedSeconds) 100))\<rparr>)"

text \<open>
  The day of the report is the day of Beijing (UTC+8) that contains \<open>now\<close>; the
  elapsed seconds are at least 1.
\<close>

definition BEIJING_OFFSET_MS :: int where
  "BEIJING_OFFSET_MS = 8 * 60 * 60 * 1000"

definition dayStartMs :: "int \<Rightarrow> int" where
  "dayStartMs nowMs =
     (let bj = nowMs + BEIJING_OFFSET_MS
      in (bj - bj mod (24 * 60 * 60 * 1000)) - BEIJING_OFFSET_MS)"

definition elapsedSecondsAt :: "int \<Rightarrow> int" where
  "elapsedSecondsAt nowMs = max 1 ((nowMs - dayStartMs nowMs) div 1000)"

definition todayEventsOf :: "int \<Rightarrow> event list \<Rightarrow> event list" where
  "todayEventsOf nowMs list =
     filter (\<lambda>ev. case access_time ev of
                    Millis t \<Rightarrow> dayStartMs nowMs \<le> t
                                \<and> t < dayStartMs nowMs + 24 * 60 * 60 * 1000
                  | _ \<Rightarrow> False) list"

text \<open>
  The total share is capped: \<open>Math.min(100, (totalCovered / elapsedSeconds) * 100)\<close>.
  The lines of the message are the sentence with the total share, the lines of the phone
  block and the lines of the desktop block.
\<close>

definition totalPercent :: "rounding \<Rightarrow> real \<Rightarrow> device_block \<Rightarrow> device_block \<Rightarrow> real" where
  "totalPercent rnd elapsedSeconds phoneBlock pcBlock =
     (let totalCovered = fadd rnd (block_coveredSeconds phoneBlock) (block_coveredSeconds pcBlock)
      in min 100 (fmul rnd (fdiv rnd totalCovered elapsedSeconds) 100))"

definition todayLines ::
  "rounding \<Rightarrow> real \<Rightarrow> real \<Rightarrow> jsstring \<Rightarrow> event list \<Rightarrow> event list \<Rightarrow> jsstring list" where
  "todayLines rnd heartbeat elapsedSeconds name phoneEvents pcEvents =
     (let phoneBlock = buildDeviceBlock rnd heartbeat elapsedSeconds phoneEvents TXT_PHONE_LABEL;
          pcBlock = buildDeviceBlock rnd heartbeat elapsedSeconds pcEvents TXT_PC_LABEL
      in (name @ TXT_TODAY_SO_FAR
          @ toFixed1 (totalPercent rnd elapsedSeconds phoneBlock pcBlock)
          @ TXT_TODAY_REST)
         # block_lines phoneBlock @ block_lines pcBlock)"

text \<open>
  \<open>queryToday\<close>, from the events that the service returned to the text of the reply;
  \<open>cfg\<close> is the configured heartbeat interval and \<open>nowMs\<close> is \<open>Date.now()\<close>.
\<close>

definition queryTodayReply ::
  "rounding \<Rightarrow> real option \<Rightarrow> int \<Rightarrow> jsstring \<Rightarrow> event list \<Rightarrow> jsstring" where
  "queryTodayReply rnd cfg nowMs name list =
     (let todayEvents = todayEventsOf nowMs list
      in if todayEvents = [] then name @ TXT_NOTHING_TODAY
         else
           let phoneEvents = filter (\<lambda>e. isPhoneDevice (machine e)) todayEvents;
               pcEvents = (if name \<in> set HIDE_PC_NAMES then []
                           else filter (\<lambda>e. \<not> isPhoneDevice (machine e)) todayEvents)
           in joinLines (todayLines rnd (heartbeatSec cfg) (real_of_int (elapsedSecondsAt nowMs))
                           name phoneEvents pcEvents))"
section \<open>Facts about the string operations\<close>

lemma trim_noise_entries:
  "\<forall>e \<in> set NOISE_APPS. trim e = e"
  by (simp add: NOISE_APPS_def trim_def isWhiteSpace_def)

lemma sublist_dropWhile:
  assumes "sublist e a" and "e \<noteq> []" and "\<not> P (hd e)"
  shows "sublist e (dropWhile P a)"
proof -
  from assms(1) obtain ps ss where a: "a = ps @ e @ ss"
    by (auto simp: sublist_def)
  have "sublist e (dropWhile P (ps @ e @ ss))"
  proof (induction ps)
    case Nil
    from assms(2,3) have "dropWhile P (e @ ss) = e @ ss" by (cases e) auto
    then show ?case by simp
  next
    case (Cons p ps)
    show ?case
    proof (cases "P p")
      case True
      with Cons show ?thesis by simp
    next
      case False
      have "sublist e ((p # ps) @ e @ ss)" by (rule sublist_appendI)
      with False show ?thesis by simp
    qed
  qed
  with a show ?thesis by simp
qed

text \<open>
  Trimming keeps every occurrence of a word that neither starts nor ends with white
  space.
\<close>

lemma sublist_trim:
  assumes "sublist e a" and "e \<noteq> []"
    and "\<not> isWhiteSpace (hd e)" and "\<not> isWhiteSpace (last e)"
  shows "sublist e (trim a)"
proof -
  have "sublist e (dropWhile isWhiteSpace a)"
    using assms(1-3) by (rule sublist_dropWhile)
  then have "sublist (rev e) (rev (dropWhile isWhiteSpace a))"
    by simp
  moreover have "rev e \<noteq> []" and "\<not> isWhiteSpace (hd (rev e))"
    using assms(2,4) by (simp_all add: hd_rev)
  ultimately have "sublist (rev e) (dropWhile isWhiteSpace (rev (dropWhile isWhiteSpace a)))"
    by (rule sublist_dropWhile)
  then show ?thesis by (simp add: trim_def sublist_rev_right)
qed

section \<open>The screen-off apps among the noise apps\<close>

lemma screen_off_sub_noise: "set SCREEN_OFF_APPS \<subseteq> set NOISE_APPS"
  by (simp add: SCREEN_OFF_APPS_def NOISE_APPS_def)

lemma isNoiseApp_iff: "isNoiseApp a \<longleftrightarrow> trim a \<in> set NOISE_APPS"
  by (auto simp: isNoiseApp_def list_ex_iff)

lemma isScreenOffApp_iff: "isScreenOffApp a \<longleftrightarrow> trim a \<in> set SCREEN_OFF_APPS"
  by (auto simp: isScreenOffApp_def list_ex_iff)

text \<open>
  C5. The screen-off list is part of the noise list: an app name judged screen-off is
  judged noise as well, and an app name equal to an entry of the noise list that is not
  in the screen-off list is judged noise and not screen-off.
\<close>

theorem screen_off_implies_noise:
  "set SCREEN_OFF_APPS \<subseteq> set NOISE_APPS
   \<and> (\<forall>a. isScreenOffApp a \<longrightarrow> isNoiseApp a)
   \<and> (\<forall>e \<in> set NOISE_APPS - set SCREEN_OFF_APPS. isNoiseApp e \<and> \<not> isScreenOffApp e)"
proof (intro conjI allI impI ballI)
  show "set SCREEN_OFF_APPS \<subseteq> set NOISE_APPS" by (rule screen_off_sub_noise)
next
  fix a assume "isScreenOffApp a"
  then show "isNoiseApp a"
    using screen_off_sub_noise by (auto simp: isNoiseApp_iff isScreenOffApp_iff)
next
  fix e assume e: "e \<in> set NOISE_APPS - set SCREEN_OFF_APPS"
  then have "trim e = e" using trim_noise_entries by blast
  with e show "isNoiseApp e" by (simp add: isNoiseApp_iff)
next
  fix e assume e: "e \<in> set NOISE_APPS - set SCREEN_OFF_APPS"
  then have "trim e = e" using trim_noise_entries by blast
  with e show "\<not> isScreenOffApp e" by (simp add: isScreenOffApp_iff)
qed

theorem screen_off_implies_noise_witness:
  "isScreenOffApp [0x6307, 0x7EB9, 0x0055, 0x0049] \<and> isNoiseApp [0x6307, 0x7EB9, 0x0055,
      0x0049]
   \<and> [0x5B89, 0x5168, 0x670D, 0x52A1] \<in> set NOISE_APPS - set SCREEN_OFF_APPS
   \<and> isNoiseApp [0x5B89, 0x5168, 0x670D, 0x52A1] \<and> \<not> isScreenOffApp [0x5B89,
       0x5168, 0x670D, 0x52A1]"
proof -
  have so: "isScreenOffApp [0x6307, 0x7EB9, 0x0055, 0x0049]"
    by (simp add: isScreenOffApp_def SCREEN_OFF_APPS_def trim_def isWhiteSpace_def)
  have mem: "[0x5B89, 0x5168, 0x670D, 0x52A1] \<in> set NOISE_APPS - set SCREEN_OFF_APPS"
    by (simp add: NOISE_APPS_def SCREEN_OFF_APPS_def)
  from so mem screen_off_implies_noise show ?thesis by blast
qed

section \<open>Exact matching of noise apps\<close>

lemma noise_entries_shape:
  "\<forall>e \<in> set NOISE_APPS. e \<noteq> [] \<and> \<not> isWhiteSpace (hd e) \<and> \<not> isWhiteSpace (last e)"
  by (simp add: NOISE_APPS_def isWhiteSpace_def)

lemma noise_entries_no_overlap:
  "\<forall>e \<in> set NOISE_APPS. \<forall>e' \<in> set NOISE_APPS. sublist e e' \<longrightarrow> e = e'"
  by (simp add: NOISE_APPS_def sublist_code)

text \<open>
  C6. Both tests are equalities of the trimmed app name with an entry of the list. An
  app name that contains an entry of the noise list, and is not that entry after
  trimming, is judged neither noise nor screen-off.
\<close>

theorem noise_match_is_exact:
  "(isNoiseApp a \<longleftrightarrow> (\<exists>e \<in> set NOISE_APPS. trim a = e))
   \<and> (isScreenOffApp a \<longleftrightarrow> (\<exists>e \<in> set SCREEN_OFF_APPS. trim a = e))
   \<and> (\<forall>e \<in> set NOISE_APPS. sublist e a \<and> trim a \<noteq> e
          \<longrightarrow> \<not> isNoiseApp a \<and> \<not> isScreenOffApp a)"
proof (intro conjI ballI impI)
  show "isNoiseApp a \<longleftrightarrow> (\<exists>e \<in> set NOISE_APPS. trim a = e)"
    by (simp add: isNoiseApp_iff)
  show "isScreenOffApp a \<longleftrightarrow> (\<exists>e \<in> set SCREEN_OFF_APPS. trim a = e)"
    by (simp add: isScreenOffApp_iff)
next
  fix e assume e: "e \<in> set NOISE_APPS" and h: "sublist e a \<and> trim a \<noteq> e"
  have "trim a \<notin> set NOISE_APPS"
  proof
    assume m: "trim a \<in> set NOISE_APPS"
    from e noise_entries_shape
    have "e \<noteq> []" "\<not> isWhiteSpace (hd e)" "\<not> isWhiteSpace (last e)" by blast+
    with h have "sublist e (trim a)" by (intro sublist_trim) simp_all
    with e m noise_entries_no_overlap have "e = trim a" by blast
    with h show False by simp
  qed
  then show "\<not> isNoiseApp a"
    by (simp add: isNoiseApp_iff)
  with h show "\<not> isScreenOffApp a"
    using screen_off_sub_noise by (auto simp: isNoiseApp_iff isScreenOffApp_iff)
qed

theorem noise_match_is_exact_witness:
  "[0x7CFB, 0x7EDF, 0x0020, 0x0055, 0x0049] \<in> set NOISE_APPS
   \<and> sublist [0x7CFB, 0x7EDF, 0x0020, 0x0055, 0x0049] ([0x7CFB, 0x7EDF, 0x0020, 0x0055,
       0x0049, 0x0020, 0x8C03, 0x8C10, 0x5668] :: jsstring) \<and> trim [0x7CFB, 0x7EDF,
       0x0020, 0x0055, 0x0049, 0x0020, 0x8C03, 0x8C10, 0x5668] \<noteq> [0x7CFB, 0x7EDF,
       0x0020, 0x0055, 0x0049]
   \<and> \<not> isNoiseApp [0x7CFB, 0x7EDF, 0x0020, 0x0055, 0x0049, 0x0020, 0x8C03, 0x8C10,
       0x5668] \<and> \<not> isScreenOffApp [0x7CFB, 0x7EDF, 0x0020, 0x0055, 0x0049, 0x0020,
       0x8C03, 0x8C10, 0x5668]"
proof -
  have m: "[0x7CFB, 0x7EDF, 0x0020, 0x0055, 0x0049] \<in> set NOISE_APPS"
    by (simp add: NOISE_APPS_def)
  have s: "sublist [0x7CFB, 0x7EDF, 0x0020, 0x0055, 0x0049] ([0x7CFB, 0x7EDF, 0x0020, 0x0055,
      0x0049, 0x0020, 0x8C03, 0x8C10, 0x5668] :: jsstring)"
    by (simp add: sublist_code)
  have t: "trim [0x7CFB, 0x7EDF, 0x0020, 0x0055, 0x0049, 0x0020, 0x8C03, 0x8C10,
      0x5668] \<noteq> [0x7CFB, 0x7EDF, 0x0020, 0x0055, 0x0049]"
    by (simp add: trim_def isWhiteSpace_def)
  from m s t noise_match_is_exact [of "[0x7CFB, 0x7EDF, 0x0020, 0x0055, 0x0049, 0x0020,
      0x8C03, 0x8C10, 0x5668]"] show ?thesis by blast
qed

section \<open>Music titles\<close>

text \<open>
  C3. For the title made of the note symbol U+1F3B5, a space, the two characters
  U+597D U+6B4C, the separator, and the five characters U+7F51 U+6613 U+4E91 U+97F3
  U+4E42, the part before the separator is the app and the part after it the song: the
  app is U+597D U+6B4C and the song is the five characters.
\<close>

theorem music_example_app_first:
  "parseMusicWindowTitle [0xD83C, 0xDFB5, 0x0020, 0x597D, 0x6B4C, 0x0020, 0x002D, 0x0020,
      0x7F51, 0x6613, 0x4E91, 0x97F3, 0x4E42]
     = Some \<lparr>music_app = [0x597D, 0x6B4C], music_song = [0x7F51, 0x6613, 0x4E91,
         0x97F3, 0x4E42]\<rparr>"
  by (simp add: parseMusicWindowTitle_def trim_def isWhiteSpace_def musicClass_def
      trimLeadingNoise_def isLeadingNoise_def SEP_def orElse_def Let_def)

text \<open>The reading of that example with app and song exchanged does not hold.\<close>

theorem music_example_swapped_counterexample:
  "parseMusicWindowTitle [0xD83C, 0xDFB5, 0x0020, 0x597D, 0x6B4C, 0x0020, 0x002D, 0x0020,
      0x7F51, 0x6613, 0x4E91, 0x97F3, 0x4E42]
     \<noteq> Some \<lparr>music_app = [0x7F51, 0x6613, 0x4E91, 0x97F3, 0x4E42],
         music_song = [0x597D, 0x6B4C]\<rparr>"
  by (simp add: parseMusicWindowTitle_def trim_def isWhiteSpace_def musicClass_def
      trimLeadingNoise_def isLeadingNoise_def SEP_def orElse_def Let_def)


section \<open>First occurrence of a separator\<close>

lemma indexOf_None_iff: "indexOf s sep = None \<longleftrightarrow> \<not> sublist sep s"
  by (induction s) (auto simp: sublist_Cons_right split: option.splits)

lemma indexOf_first:
  "s = a @ sep @ b \<Longrightarrow> (\<forall>j < length a. \<not> prefix sep (drop j s))
     \<Longrightarrow> indexOf s sep = Some (length a)"
proof (induction a arbitrary: s)
  case Nil
  then have "prefix sep s" by simp
  then show ?case by (cases s) simp_all
next
  case (Cons x a)
  have s: "s = x # (a @ sep @ b)" using Cons.prems(1) by simp
  from Cons.prems(2) have "\<not> prefix sep (drop 0 s)" by (metis length_greater_0_conv list.distinct(1))
  then have np: "\<not> prefix sep s" by simp
  have "\<forall>j < length a. \<not> prefix sep (drop j (a @ sep @ b))"
  proof (intro allI impI)
    fix j assume "j < length a"
    then have "Suc j < length (x # a)" by simp
    with Cons.prems(2) have "\<not> prefix sep (drop (Suc j) s)" by blast
    with s show "\<not> prefix sep (drop j (a @ sep @ b))" by simp
  qed
  then have "indexOf (a @ sep @ b) sep = Some (length a)"
    by (intro Cons.IH) simp_all
  with s np show ?case by simp
qed

lemma indexOf_Some:
  "indexOf s sep = Some i \<Longrightarrow>
     s = take i s @ sep @ drop (i + length sep) s \<and> (\<forall>j < i. \<not> prefix sep (drop j s))"
proof (induction s arbitrary: i)
  case Nil
  then show ?case by (auto split: if_splits)
next
  case (Cons c cs)
  show ?case
  proof (cases "prefix sep (c # cs)")
    case True
    with Cons.prems have "i = 0" by simp
    with True show ?thesis by (auto simp: prefix_def)
  next
    case False
    with Cons.prems obtain k where k: "indexOf cs sep = Some k" "i = Suc k"
      by (auto split: option.splits)
    from Cons.IH [OF k(1)]
    have ih: "cs = take k cs @ sep @ drop (k + length sep) cs"
      "\<forall>j < k. \<not> prefix sep (drop j cs)" by simp_all
    have "\<forall>j < i. \<not> prefix sep (drop j (c # cs))"
    proof (intro allI impI)
      fix j assume "j < i"
      show "\<not> prefix sep (drop j (c # cs))"
      proof (cases j)
        case 0
        with False show ?thesis by simp
      next
        case (Suc m)
        with \<open>j < i\<close> k(2) ih(2) show ?thesis by simp
      qed
    qed
    moreover from ih(1) k(2) have "c # cs = take i (c # cs) @ sep @ drop (i + length sep) (c # cs)"
      by simp
    ultimately show ?thesis by blast
  qed
qed

lemma includes_js_iff: "includes_js s k \<longleftrightarrow> sublist k s"
  by (induction s) (auto simp: sublist_Cons_right)

section \<open>Trimming\<close>

lemma dropWhile_id: "s = [] \<or> \<not> P (hd s) \<Longrightarrow> dropWhile P s = s"
  by (cases s) auto

lemma trim_trimEnd: "trim s = trimEnd (dropWhile isWhiteSpace s)"
  by (simp add: trim_def trimEnd_def)

lemma trimEnd_id: "s = [] \<or> \<not> isWhiteSpace (last s) \<Longrightarrow> trimEnd s = s"
proof -
  assume a: "s = [] \<or> \<not> isWhiteSpace (last s)"
  then have "rev s = [] \<or> \<not> isWhiteSpace (hd (rev s))" by (auto simp: hd_rev)
  then have "dropWhile isWhiteSpace (rev s) = rev s" by (rule dropWhile_id)
  then show ?thesis by (simp add: trimEnd_def)
qed

lemma trimEnd_shape:
  assumes "s \<noteq> []" and "\<not> isWhiteSpace (hd s)"
  shows "trimEnd s \<noteq> []" and "hd (trimEnd s) = hd s" and "\<not> isWhiteSpace (last (trimEnd s))"
proof -
  let ?r = "dropWhile isWhiteSpace (rev s)"
  from assms have "last (rev s) \<in> set (rev s)" "\<not> isWhiteSpace (last (rev s))"
    by (simp_all add: last_rev hd_in_set)
  then have ne: "?r \<noteq> []" by (auto simp: dropWhile_eq_Nil_conv)
  then show "trimEnd s \<noteq> []" by (simp add: trimEnd_def)
  have "rev s = takeWhile isWhiteSpace (rev s) @ ?r" by simp
  then have "last (rev s) = last ?r" using ne by (metis last_appendR)
  then show "hd (trimEnd s) = hd s" using ne assms by (simp add: trimEnd_def hd_rev last_rev)
  from ne have "\<not> isWhiteSpace (hd ?r)" by (rule hd_dropWhile)
  then show "\<not> isWhiteSpace (last (trimEnd s))" using ne by (simp add: trimEnd_def last_rev)
qed

lemma ws_noise: "isWhiteSpace c \<Longrightarrow> isLeadingNoise c"
  by (simp add: isLeadingNoise_def)

lemma trimLeadingNoise_eq: "trimLeadingNoise s = trimEnd (dropWhile isLeadingNoise s)"
proof (cases "dropWhile isLeadingNoise s = []")
  case True
  have "trim (dropWhile isLeadingNoise s) = []"
    unfolding True by (simp add: trim_def)
  moreover have "trimEnd (dropWhile isLeadingNoise s) = []"
    unfolding True by (simp add: trimEnd_def)
  ultimately show ?thesis by (simp add: trimLeadingNoise_def)
next
  case False
  then have "\<not> isLeadingNoise (hd (dropWhile isLeadingNoise s))" by (rule hd_dropWhile)
  then have "\<not> isWhiteSpace (hd (dropWhile isLeadingNoise s))" using ws_noise by blast
  then have "dropWhile isWhiteSpace (dropWhile isLeadingNoise s) = dropWhile isLeadingNoise s"
    by (intro dropWhile_id) simp
  with False show ?thesis by (auto simp: trimLeadingNoise_def trim_trimEnd)
qed

lemma trimLeadingNoise_shape:
  assumes "trimLeadingNoise s \<noteq> []"
  shows "\<not> isLeadingNoise (hd (trimLeadingNoise s))"
    and "\<not> isWhiteSpace (last (trimLeadingNoise s))"
proof -
  let ?d = "dropWhile isLeadingNoise s"
  have ne: "?d \<noteq> []"
  proof
    assume e: "?d = []"
    have "trimEnd ?d = []" unfolding e by (simp add: trimEnd_def)
    with assms show False by (simp add: trimLeadingNoise_eq)
  qed
  then have h: "\<not> isLeadingNoise (hd ?d)" by (rule hd_dropWhile)
  then have w: "\<not> isWhiteSpace (hd ?d)" using ws_noise by blast
  from trimEnd_shape [OF ne w] h
  show "\<not> isLeadingNoise (hd (trimLeadingNoise s))"
    and "\<not> isWhiteSpace (last (trimLeadingNoise s))"
    by (simp_all add: trimLeadingNoise_eq)
qed

lemma trimLeadingNoise_clean:
  assumes "s = [] \<or> (\<not> isLeadingNoise (hd s) \<and> \<not> isWhiteSpace (last s))"
  shows "trimLeadingNoise s = s"
proof -
  from assms have "dropWhile isLeadingNoise s = s" by (intro dropWhile_id) auto
  moreover from assms have "trimEnd s = s" by (intro trimEnd_id) auto
  ultimately show ?thesis by (simp add: trimLeadingNoise_eq)
qed

lemma trimLeadingNoise_idem: "trimLeadingNoise (trimLeadingNoise s) = trimLeadingNoise s"
  using trimLeadingNoise_shape [of s] by (intro trimLeadingNoise_clean) blast


section \<open>The music rule\<close>

lemma isMusic_iff:
  "((case raw of [] \<Rightarrow> False | c # _ \<Rightarrow> c \<in> set musicClass)
      \<or> prefix [0xD83C, 0xDFB6] raw \<or> prefix [0xD83C, 0xDFB5] raw)
   \<longleftrightarrow> (\<exists>c cs. raw = c # cs \<and> c \<in> {0xFFFD, 0xD83C, 0xDFB5,
       0xDFB6})"
  by (cases raw) (auto simp: musicClass_def)

lemma trim_Nil: "trim [] = []"
  by (simp add: trim_def)

lemma orElse_Nil: "orElse x [] = x"
  by (simp add: orElse_def)

lemma parseMusic_None_iff:
  "parseMusicWindowTitle t = None
   \<longleftrightarrow> \<not> (\<exists>c cs. trim t = c # cs \<and> c \<in> {0xFFFD,
       0xD83C, 0xDFB5, 0xDFB6})"
proof (cases "t = []")
  case True
  then show ?thesis by (simp add: parseMusicWindowTitle_def trim_Nil)
next
  case False
  then show ?thesis
    unfolding parseMusicWindowTitle_def Let_def isMusic_iff
    by (simp split: option.splits)
qed

lemma parseMusic_Some:
  assumes "parseMusicWindowTitle t \<noteq> None"
  shows "parseMusicWindowTitle t =
    (case indexOf (trimLeadingNoise (trim t)) SEP of
       None \<Rightarrow>
         Some \<lparr>music_app = orElse (trimLeadingNoise (trimLeadingNoise (trim t))) UNKNOWN,
               music_song = orElse (trimLeadingNoise (trimLeadingNoise (trim t))) []\<rparr>
     | Some idx \<Rightarrow>
         Some \<lparr>music_app = orElse (trimLeadingNoise (take idx (trimLeadingNoise (trim t)))) UNKNOWN,
               music_song = orElse (trimLeadingNoise
                   (drop (idx + length SEP) (trimLeadingNoise (trim t)))) []\<rparr>)"
proof -
  from assms parseMusic_None_iff [of t]
  have ex: "\<exists>c cs. trim t = c # cs \<and> c \<in> {0xFFFD, 0xD83C, 0xDFB5, 0xDFB6}"
    by simp
  then have t: "t \<noteq> []" by (auto simp: trim_Nil)
  from ex have im: "(case trim t of [] \<Rightarrow> False | c # _ \<Rightarrow> c \<in> set musicClass)
      \<or> prefix [0xD83C, 0xDFB6] (trim t) \<or> prefix [0xD83C, 0xDFB5] (trim t)"
    by (simp only: isMusic_iff)
  show ?thesis
    unfolding parseMusicWindowTitle_def Let_def
    by (simp only: t im if_False if_True not_True_eq_False)
qed

lemma music_no_separator:
  assumes "parseMusicWindowTitle t \<noteq> None" and "\<not> sublist SEP (trimLeadingNoise (trim t))"
  shows "parseMusicWindowTitle t =
     Some \<lparr>music_app = orElse (trimLeadingNoise (trim t)) UNKNOWN,
           music_song = trimLeadingNoise (trim t)\<rparr>"
proof -
  from assms(2) have "indexOf (trimLeadingNoise (trim t)) SEP = None"
    by (simp add: indexOf_None_iff)
  with parseMusic_Some [OF assms(1)] show ?thesis
    by (simp add: trimLeadingNoise_idem orElse_def)
qed

lemma SEP_noise: "isLeadingNoise (hd SEP)" "SEP \<noteq> []" "length SEP = 3"
  by (simp_all add: SEP_def isLeadingNoise_def isWhiteSpace_def)

lemma music_with_separator:
  assumes m: "parseMusicWindowTitle t \<noteq> None"
    and r: "trimLeadingNoise (trim t) = a @ SEP @ b"
    and f: "\<forall>j < length a. \<not> prefix SEP (drop j (trimLeadingNoise (trim t)))"
  shows "parseMusicWindowTitle t =
     Some \<lparr>music_app = trimEnd a, music_song = dropWhile isLeadingNoise b\<rparr>"
proof -
  let ?rest = "trimLeadingNoise (trim t)"
  have idx: "indexOf ?rest SEP = Some (length a)"
    using r f by (rule indexOf_first)
  have ne: "?rest \<noteq> []" using r SEP_noise(2) by simp
  have hd_rest: "\<not> isLeadingNoise (hd ?rest)" and last_rest: "\<not> isWhiteSpace (last ?rest)"
    using trimLeadingNoise_shape [OF ne] by simp_all
  have a_ne: "a \<noteq> []"
  proof
    assume "a = []"
    with r SEP_noise(2) have "hd ?rest = hd SEP" by simp
    with hd_rest SEP_noise(1) show False by simp
  qed
  with r have hd_a: "hd a = hd ?rest" by simp
  with hd_rest have na: "\<not> isLeadingNoise (hd a)" by simp
  then have wa: "\<not> isWhiteSpace (hd a)" using ws_noise by blast
  have "dropWhile isLeadingNoise a = a" using na by (intro dropWhile_id) simp
  then have app1: "trimLeadingNoise a = trimEnd a" by (simp add: trimLeadingNoise_eq)
  have app2: "trimEnd a \<noteq> []" using a_ne wa by (rule trimEnd_shape(1))
  have app: "orElse (trimLeadingNoise (take (length a) ?rest)) UNKNOWN = trimEnd a"
    using app1 app2 r by (simp add: orElse_def)
  let ?d = "dropWhile isLeadingNoise b"
  have song1: "trimEnd ?d = ?d"
  proof (cases "?d = []")
    case True
    show ?thesis unfolding True by (simp add: trimEnd_def)
  next
    case False
    then have b_ne: "b \<noteq> []" by auto
    have "b = takeWhile isLeadingNoise b @ ?d" by simp
    then have "last b = last ?d" using False by (metis last_appendR)
    moreover have "last ?rest = last b" using r b_ne by simp
    ultimately have "\<not> isWhiteSpace (last ?d)" using last_rest by simp
    then show ?thesis by (intro trimEnd_id) simp
  qed
  have "trimLeadingNoise b = ?d"
    using song1 by (simp add: trimLeadingNoise_eq)
  moreover have "drop (length a + length SEP) ?rest = b"
    using r by simp
  moreover have "orElse ?d [] = ?d"
    by (rule orElse_Nil)
  ultimately have song: "orElse (trimLeadingNoise (drop (length a + length SEP) ?rest)) [] = ?d"
    by simp
  from parseMusic_Some [OF m] idx app song show ?thesis by simp
qed

lemma designed_start_is_music:
  assumes "prefix [0xFFFD] (trim t) \<or> prefix [0xD83C, 0xDFB6] (trim t)
      \<or> prefix [0xD83C, 0xDFB5] (trim t)"
  shows "parseMusicWindowTitle t \<noteq> None"
proof -
  from assms have "\<exists>c cs. trim t = c # cs \<and> c \<in> {0xFFFD, 0xD83C, 0xDFB5,
      0xDFB6}"
    by (cases "trim t") auto
  then show ?thesis by (simp add: parseMusic_None_iff)
qed

text \<open>
  C1, as the code has it by design. A title that, trimmed, starts with U+FFFD or with
  one of the two note symbols is a music title. A title that, trimmed, is empty or starts
  with a code unit other than U+FFFD, U+D83C, U+DFB5 and U+DFB6 is not. (Nothing is said
  of a title that starts with one of these three surrogate code units and not with a
  note symbol.) For the music titles above, the remainder is the trimmed title without
  its leading replacement characters, white space and surrogate code units (the note
  symbol is among them), trimmed again. Without a separator in the remainder, the song is
  the remainder and the app is the remainder, or the placeholder when the remainder is
  empty. With a separator, the app is the part before its first occurrence without the
  white space at its end, and the song is the part behind it without its leading noise.
\<close>

theorem parseMusicWindowTitle_rule:
  "((prefix [0xFFFD] (trim t) \<or> prefix [0xD83C, 0xDFB6] (trim t)
        \<or> prefix [0xD83C, 0xDFB5] (trim t)) \<longrightarrow>
      parseMusicWindowTitle t \<noteq> None
      \<and> (\<forall>rest. rest = trimLeadingNoise (trim t) \<longrightarrow>
           (\<not> sublist SEP rest \<longrightarrow>
              parseMusicWindowTitle t =
                Some \<lparr>music_app = (if rest = [] then UNKNOWN else rest), music_song = rest\<rparr>)
           \<and> (\<forall>a b. rest = a @ SEP @ b \<and> (\<forall>j < length a. \<not> prefix SEP (drop j rest)) \<longrightarrow>
                 parseMusicWindowTitle t =
                   Some \<lparr>music_app = trimEnd a, music_song = dropWhile isLeadingNoise b\<rparr>)))
   \<and> ((\<forall>c cs. trim t = c # cs \<longrightarrow> c \<notin> {0xFFFD, 0xD83C,
       0xDFB5, 0xDFB6}) \<longrightarrow>
        parseMusicWindowTitle t = None)"
proof (intro conjI allI impI)
  assume d: "prefix [0xFFFD] (trim t) \<or> prefix [0xD83C, 0xDFB6] (trim t)
        \<or> prefix [0xD83C, 0xDFB5] (trim t)"
  then show "parseMusicWindowTitle t \<noteq> None" by (rule designed_start_is_music)
next
  fix rest
  assume d: "prefix [0xFFFD] (trim t) \<or> prefix [0xD83C, 0xDFB6] (trim t)
        \<or> prefix [0xD83C, 0xDFB5] (trim t)"
    and e: "rest = trimLeadingNoise (trim t)"
    and n: "\<not> sublist SEP rest"
  from d have m: "parseMusicWindowTitle t \<noteq> None" by (rule designed_start_is_music)
  from n have "\<not> sublist SEP (trimLeadingNoise (trim t))" unfolding e .
  with m have "parseMusicWindowTitle t =
     Some \<lparr>music_app = orElse (trimLeadingNoise (trim t)) UNKNOWN,
           music_song = trimLeadingNoise (trim t)\<rparr>"
    by (rule music_no_separator)
  then show "parseMusicWindowTitle t =
      Some \<lparr>music_app = (if rest = [] then UNKNOWN else rest), music_song = rest\<rparr>"
    unfolding e by (simp add: orElse_def)
next
  fix rest a b
  assume d: "prefix [0xFFFD] (trim t) \<or> prefix [0xD83C, 0xDFB6] (trim t)
        \<or> prefix [0xD83C, 0xDFB5] (trim t)"
    and e: "rest = trimLeadingNoise (trim t)"
    and s: "rest = a @ SEP @ b \<and> (\<forall>j < length a. \<not> prefix SEP (drop j rest))"
  from d have m: "parseMusicWindowTitle t \<noteq> None" by (rule designed_start_is_music)
  from s have "rest = a @ SEP @ b"
    and "\<forall>j < length a. \<not> prefix SEP (drop j rest)" by blast+
  then have "trimLeadingNoise (trim t) = a @ SEP @ b"
    and "\<forall>j < length a. \<not> prefix SEP (drop j (trimLeadingNoise (trim t)))"
    unfolding e by simp_all
  with m music_with_separator [of t a b]
  show "parseMusicWindowTitle t =
      Some \<lparr>music_app = trimEnd a, music_song = dropWhile isLeadingNoise b\<rparr>"
    by blast
next
  assume "\<forall>c cs. trim t = c # cs \<longrightarrow> c \<notin> {0xFFFD, 0xD83C,
      0xDFB5, 0xDFB6}"
  then have "\<not> (\<exists>c cs. trim t = c # cs \<and> c \<in> {0xFFFD, 0xD83C, 0xDFB5,
      0xDFB6})"
    by blast
  then show "parseMusicWindowTitle t = None" by (simp add: parseMusic_None_iff)
qed

theorem parseMusicWindowTitle_rule_witness:
  "parseMusicWindowTitle ([0xD83C, 0xDFB6, 0x0051, 0x0051, 0x97F3, 0x4E50, 0x0020, 0x0020,
      0x002D, 0x0020, 0x6674, 0x5929] :: jsstring)
     = Some \<lparr>music_app = [0x0051, 0x0051, 0x97F3, 0x4E50], music_song = [0x6674,
         0x5929]\<rparr>
   \<and> parseMusicWindowTitle ([0xD83C,
       0xDFB5] :: jsstring) = Some \<lparr>music_app = UNKNOWN, music_song = []\<rparr>
   \<and> parseMusicWindowTitle ([0x5FAE, 0x4FE1, 0x0020, 0x002D, 0x0020, 0x0063, 0x006F,
       0x006D, 0x002E, 0x0074, 0x0065, 0x006E, 0x0063, 0x0065, 0x006E, 0x0074, 0x002E,
       0x006D, 0x006D] :: jsstring) = None"
proof -
  let ?t = "([0xD83C, 0xDFB6, 0x0051, 0x0051, 0x97F3, 0x4E50, 0x0020, 0x0020, 0x002D, 0x0020,
      0x6674, 0x5929] :: jsstring)"
  have tr: "trim ?t = ?t"
    by (simp add: trim_def isWhiteSpace_def)
  have st: "prefix [0xFFFD] (trim ?t) \<or> prefix [0xD83C, 0xDFB6] (trim ?t)
        \<or> prefix [0xD83C, 0xDFB5] (trim ?t)"
    unfolding tr by simp
  have rest: "trimLeadingNoise (trim ?t) = [0x0051, 0x0051, 0x97F3, 0x4E50,
      0x0020] @ SEP @ [0x6674, 0x5929]"
    by (simp add: trim_def isWhiteSpace_def trimLeadingNoise_def isLeadingNoise_def SEP_def)
  have first: "\<forall>j < length ([0x0051, 0x0051, 0x97F3, 0x4E50, 0x0020] :: jsstring).
      \<not> prefix SEP (drop j (trimLeadingNoise (trim ?t)))"
    unfolding rest by (simp add: SEP_def All_less_Suc)
  have 1: "parseMusicWindowTitle ?t =
      Some \<lparr>music_app = trimEnd [0x0051, 0x0051, 0x97F3, 0x4E50, 0x0020],
          music_song = dropWhile isLeadingNoise [0x6674, 0x5929]\<rparr>"
    using parseMusicWindowTitle_rule [of ?t, THEN conjunct1, THEN mp, OF st, THEN conjunct2,
        rule_format, OF refl, THEN conjunct2, rule_format, of "[0x0051, 0x0051, 0x97F3,
            0x4E50, 0x0020]" "[0x6674, 0x5929]"]
      rest first
    by blast
  have tr2: "trim ([0xD83C, 0xDFB5] :: jsstring) = [0xD83C, 0xDFB5]"
    by (simp add: trim_def isWhiteSpace_def)
  have st2: "prefix [0xFFFD] (trim ([0xD83C, 0xDFB5] :: jsstring)) \<or> prefix [0xD83C,
      0xDFB6] (trim ([0xD83C, 0xDFB5] :: jsstring))
        \<or> prefix [0xD83C, 0xDFB5] (trim ([0xD83C, 0xDFB5] :: jsstring))"
    unfolding tr2 by simp
  have rest2: "trimLeadingNoise (trim ([0xD83C, 0xDFB5] :: jsstring)) = []"
    by (simp add: trim_def isWhiteSpace_def trimLeadingNoise_def isLeadingNoise_def)
  have 2: "parseMusicWindowTitle ([0xD83C,
      0xDFB5] :: jsstring) = Some \<lparr>music_app = UNKNOWN, music_song = []\<rparr>"
    using parseMusicWindowTitle_rule [of "([0xD83C, 0xDFB5] :: jsstring)", THEN conjunct1,
        THEN mp, OF st2,
        THEN conjunct2, rule_format, OF refl, THEN conjunct1]
    unfolding rest2 by (simp add: SEP_def)
  have tr3: "trim ([0x5FAE, 0x4FE1, 0x0020, 0x002D, 0x0020, 0x0063, 0x006F, 0x006D, 0x002E,
      0x0074, 0x0065, 0x006E, 0x0063, 0x0065, 0x006E, 0x0074, 0x002E, 0x006D,
      0x006D] :: jsstring) = [0x5FAE, 0x4FE1, 0x0020, 0x002D, 0x0020, 0x0063, 0x006F, 0x006D,
      0x002E, 0x0074, 0x0065, 0x006E, 0x0063, 0x0065, 0x006E, 0x0074, 0x002E, 0x006D, 0x006D]"
    by (simp add: trim_def isWhiteSpace_def)
  have 3: "parseMusicWindowTitle ([0x5FAE, 0x4FE1, 0x0020, 0x002D, 0x0020, 0x0063, 0x006F,
      0x006D, 0x002E, 0x0074, 0x0065, 0x006E, 0x0063, 0x0065, 0x006E, 0x0074, 0x002E, 0x006D,
      0x006D] :: jsstring) = None"
    using parseMusicWindowTitle_rule [of "([0x5FAE, 0x4FE1, 0x0020, 0x002D, 0x0020, 0x0063,
        0x006F, 0x006D, 0x002E, 0x0074, 0x0065, 0x006E, 0x0063, 0x0065, 0x006E, 0x0074,
        0x002E, 0x006D, 0x006D] :: jsstring)", THEN conjunct2]
    unfolding tr3 by simp
  from 1 2 3 show ?thesis
    by (simp add: trimEnd_def isWhiteSpace_def isLeadingNoise_def)
qed

text \<open>
  The rule in the words of the specification differs: a title that starts with a
  replacement character and goes on with ordinary letters is a music title for
  \<open>parseMusicWindowTitle\<close>, though nothing of a note symbol is left once the
  replacement character is discarded.
\<close>

theorem music_rule_counterexample:
  "parseMusicWindowTitle [0xFFFD, 0x61, 0x62, 0x63]
     = Some \<lparr>music_app = [0x61, 0x62, 0x63], music_song = [0x61, 0x62, 0x63]\<rparr>
   \<and> \<not> spec_isMusicTitle [0xFFFD, 0x61, 0x62, 0x63]"
  by (simp add: parseMusicWindowTitle_def trim_def isWhiteSpace_def musicClass_def
      trimLeadingNoise_def isLeadingNoise_def SEP_def orElse_def Let_def
      spec_isMusicTitle_def isLowSurrogate_def isHighSurrogate_def)


section \<open>More on trimming and splitting\<close>

lemma trim_shape:
  assumes "trim s \<noteq> []"
  shows "\<not> isWhiteSpace (hd (trim s))" and "\<not> isWhiteSpace (last (trim s))"
proof -
  let ?d = "dropWhile isWhiteSpace s"
  have ne: "?d \<noteq> []"
  proof
    assume e: "?d = []"
    have "trimEnd ?d = []" unfolding e by (simp add: trimEnd_def)
    with assms show False by (simp add: trim_trimEnd)
  qed
  then have w: "\<not> isWhiteSpace (hd ?d)" by (rule hd_dropWhile)
  from trimEnd_shape [OF ne w] w
  show "\<not> isWhiteSpace (hd (trim s))" and "\<not> isWhiteSpace (last (trim s))"
    by (simp_all add: trim_trimEnd)
qed

lemma trim_clean:
  assumes "s = [] \<or> (\<not> isWhiteSpace (hd s) \<and> \<not> isWhiteSpace (last s))"
  shows "trim s = s"
proof -
  from assms have "dropWhile isWhiteSpace s = s" by (intro dropWhile_id) auto
  moreover from assms have "trimEnd s = s" by (intro trimEnd_id) auto
  ultimately show ?thesis by (simp add: trim_trimEnd)
qed

lemma trim_idem: "trim (trim s) = trim s"
  using trim_shape [of s] by (intro trim_clean) blast

lemma splitAux_not_Nil: "splitAux sep acc s \<noteq> []"
  by (induction sep acc s rule: splitAux.induct) auto


section \<open>The asleep condition\<close>

lemma getAppNameFromEvent_trimmed: "trim (getAppNameFromEvent ev) = getAppNameFromEvent ev"
  by (auto simp: getAppNameFromEvent_def Let_def trim_idem trim_Nil
      split: option.splits if_splits)

lemma PC_STALE_seconds: "(now - t > PC_STALE_MS) \<longleftrightarrow> (real_of_int (now - t) / 1000 > 14400)"
  by (simp add: PC_STALE_MS_def field_simps) linarith

text \<open>
  C2. The asleep condition holds exactly when there is a phone event, the app name
  extracted from it is one of the screen-off apps, and the desktop event is stale: there
  is none, or the time from its access time to now is more than 14400 seconds. Without a
  phone event the condition is false. (The access time is what the code reads: the epoch
  when the field is missing, and no number, for which no comparison holds, when the
  field is not a date.)
\<close>

theorem asleep_condition_iff:
  "(isAsleepCondition now phoneData pcData \<longleftrightarrow>
      (\<exists>p. phoneData = Some p
         \<and> getAppNameFromEvent (Some p) \<in> set SCREEN_OFF_APPS
         \<and> (pcData = None
             \<or> (\<exists>e t. pcData = Some e \<and> getTimeOrZero e = Some t
                   \<and> real_of_int (now - t) / 1000 > 14400))))
   \<and> \<not> isAsleepCondition now None pcData"
proof -
  have stale: "isPcStale now pcData PC_STALE_MS \<longleftrightarrow>
      (pcData = None \<or> (\<exists>e t. pcData = Some e \<and> getTimeOrZero e = Some t
                   \<and> real_of_int (now - t) / 1000 > 14400))"
    by (auto simp: isPcStale_def PC_STALE_seconds split: option.splits)
  have so: "isScreenOffApp (getAppNameFromEvent ev) \<longleftrightarrow>
      getAppNameFromEvent ev \<in> set SCREEN_OFF_APPS" for ev
    by (simp add: isScreenOffApp_iff getAppNameFromEvent_trimmed)
  show ?thesis
    unfolding isAsleepCondition_def stale so by auto
qed

theorem asleep_condition_iff_witness:
  "isAsleepCondition 1700000000000
     (Some \<lparr>machine = Some (ascii ''android-1''), window_title = Some [0x7CFB, 0x7EDF,
         0x684C, 0x9762, 0x0020, 0x002D, 0x0020, 0x0063, 0x006F, 0x006D, 0x002E, 0x006D,
         0x0069, 0x0075, 0x0069, 0x002E, 0x0068, 0x006F, 0x006D, 0x0065],
            app = None, access_time = Millis 1699999990000\<rparr>)
     (Some \<lparr>machine = Some (ascii ''pc''), window_title = Some (ascii ''x''),
            app = None, access_time = Millis 1699985599999\<rparr>)
   \<and> \<not> isAsleepCondition 1700000000000
     (Some \<lparr>machine = Some (ascii ''android-1''), window_title = Some [0x7CFB, 0x7EDF,
         0x684C, 0x9762, 0x0020, 0x002D, 0x0020, 0x0063, 0x006F, 0x006D, 0x002E, 0x006D,
         0x0069, 0x0075, 0x0069, 0x002E, 0x0068, 0x006F, 0x006D, 0x0065],
            app = None, access_time = Millis 1699999990000\<rparr>)
     (Some \<lparr>machine = Some (ascii ''pc''), window_title = Some (ascii ''x''),
            app = None, access_time = Millis 1699985600000\<rparr>)"
proof -
  let ?p = "\<lparr>machine = Some (ascii ''android-1''), window_title = Some [0x7CFB,
      0x7EDF, 0x684C, 0x9762, 0x0020, 0x002D, 0x0020, 0x0063, 0x006F, 0x006D, 0x002E, 0x006D,
      0x0069, 0x0075, 0x0069, 0x002E, 0x0068, 0x006F, 0x006D, 0x0065],
            app = None, access_time = Millis 1699999990000\<rparr>"
  have a: "getAppNameFromEvent (Some ?p) = [0x7CFB, 0x7EDF, 0x684C, 0x9762]"
    by (simp add: getAppNameFromEvent_def orEmpty_def trim_def isWhiteSpace_def
        firstSegment_def split_js_def SEP_def)
  have m: "[0x7CFB, 0x7EDF, 0x684C, 0x9762] \<in> set SCREEN_OFF_APPS"
    by (simp add: SCREEN_OFF_APPS_def)
  from a m have am: "getAppNameFromEvent (Some ?p) \<in> set SCREEN_OFF_APPS"
    by simp
  show ?thesis
    using am by (simp add: asleep_condition_iff [THEN conjunct1] getTimeOrZero_def)
qed


section \<open>Which field the app name comes from\<close>

lemma trim_nonempty: "trim w \<noteq> [] \<Longrightarrow> w \<noteq> []"
  by (auto simp: trim_Nil)








section \<open>Splitting and joining\<close>

lemma join_js_Cons: "ps \<noteq> [] \<Longrightarrow> join_js (p # ps) sep = p @ sep @ join_js ps sep"
  by (cases ps) simp_all

lemma prefix_drop:
  assumes "prefix sep (c # cs)" and "sep \<noteq> []"
  shows "c # cs = sep @ drop (length sep - 1) cs"
proof -
  from assms(1) obtain r where r: "c # cs = sep @ r" by (auto simp: prefix_def)
  with assms(2) obtain sep' where s: "sep = c # sep'" by (cases sep) auto
  with r have "cs = sep' @ r" by simp
  with s r show ?thesis by simp
qed

text \<open>Joining the segments with the separator gives the string back.\<close>

lemma splitAux_join: "sep \<noteq> [] \<Longrightarrow> join_js (splitAux sep acc s) sep = rev acc @ s"
proof (induction sep acc s rule: splitAux.induct)
  case (1 sep acc)
  then show ?case by simp
next
  case (2 sep acc c cs)
  show ?case
  proof (cases "prefix sep (c # cs)")
    case True
    from prefix_drop [OF True 2(3)] have e: "c # cs = sep @ drop (length sep - 1) cs" .
    from True 2(1) 2(3)
    have "join_js (splitAux sep [] (drop (length sep - 1) cs)) sep = drop (length sep - 1) cs"
      by simp
    with True have "join_js (splitAux sep acc (c # cs)) sep
        = rev acc @ sep @ drop (length sep - 1) cs"
      by (simp add: join_js_Cons splitAux_not_Nil)
    with e show ?thesis by simp
  next
    case False
    with 2(2) 2(3) show ?thesis by simp
  qed
qed

lemma split_join: "join_js (split_js s SEP) SEP = s"
  using splitAux_join [of SEP "[]" s] SEP_noise(2) by (simp add: split_js_def)

section \<open>Browser-style titles\<close>

lemma split_Nil: "split_js [] sep = [[]]"
  by (simp add: split_js_def)

lemma classifyTitle_not_music:
  "parseMusicWindowTitle t = None \<longrightarrow>
     (\<forall>parts. parts = filter (\<lambda>p. p \<noteq> []) (map trim (split_js t SEP)) \<longrightarrow>
        (2 \<le> length parts \<longrightarrow>
           classifyTitle t = Browser (last parts) (join_js (butlast parts) SEP))
        \<and> (length parts < 2 \<longrightarrow>
             classifyTitle t = Plain (orElse (orEmpty (firstSegment t)) UNKNOWN) t))"
proof (intro impI allI conjI)
  fix parts
  assume m: "parseMusicWindowTitle t = None"
    and p: "parts = filter (\<lambda>p. p \<noteq> []) (map trim (split_js t SEP))"
    and l: "2 \<le> length parts"
  have "t \<noteq> []"
  proof
    assume "t = []"
    with p have "parts = []" by (simp add: split_Nil trim_Nil)
    with l show False by simp
  qed
  with m p l show "classifyTitle t = Browser (last parts) (join_js (butlast parts) SEP)"
    by (simp add: classifyTitle_def parseBrowserStyleTitle_def Let_def)
next
  fix parts
  assume m: "parseMusicWindowTitle t = None"
    and p: "parts = filter (\<lambda>p. p \<noteq> []) (map trim (split_js t SEP))"
    and l: "length parts < 2"
  then show "classifyTitle t = Plain (orElse (orEmpty (firstSegment t)) UNKNOWN) t"
    by (simp add: classifyTitle_def parseBrowserStyleTitle_def Let_def)
qed

lemma classifyTitle_music:
  assumes "parseMusicWindowTitle t \<noteq> None"
  shows "\<exists>a s. classifyTitle t = Music a s"
  using assms by (auto simp: classifyTitle_def)

text \<open>
  C4, as the code has it by design. A title that, trimmed, is empty or starts with a
  code unit other than U+FFFD, U+D83C, U+DFB5 and U+DFB6 is not a music title; its
  segments, joined with the separator, give the title back; when its trimmed, non-empty
  segments are two or more, it is classified as browser-style, the app is the last of
  these segments and the page title is the others joined with the separator, and the
  desktop block shows the two; when they are fewer than two, it is classified as plain.
  A title that, trimmed, starts with U+FFFD or with one of the two note symbols is
  classified as music, whatever its segments are. (Nothing is said of a title that starts
  with one of the three surrogate code units and not with a note symbol.)
\<close>

theorem browser_style_classification:
  "((\<forall>c cs. trim t = c # cs \<longrightarrow> c \<notin> {0xFFFD, 0xD83C, 0xDFB5,
      0xDFB6}) \<longrightarrow>
      parseMusicWindowTitle t = None
      \<and> join_js (split_js t SEP) SEP = t
      \<and> (\<forall>parts. parts = filter (\<lambda>p. p \<noteq> []) (map trim (split_js t SEP)) \<longrightarrow>
           (2 \<le> length parts \<longrightarrow>
              classifyTitle t = Browser (last parts) (join_js (butlast parts) SEP)
              \<and> pcContent t =
                  TXT_APP @ last parts @ TXT_NL_WINDOW_TITLE @ join_js (butlast parts) SEP)
           \<and> (length parts < 2 \<longrightarrow>
                classifyTitle t = Plain (orElse (orEmpty (firstSegment t)) UNKNOWN) t)))
   \<and> ((prefix [0xFFFD] (trim t) \<or> prefix [0xD83C, 0xDFB6] (trim t)
         \<or> prefix [0xD83C, 0xDFB5] (trim t)) \<longrightarrow>
        (\<exists>a s. classifyTitle t = Music a s))"
proof (intro conjI allI impI)
  assume "\<forall>c cs. trim t = c # cs \<longrightarrow> c \<notin> {0xFFFD, 0xD83C,
      0xDFB5, 0xDFB6}"
  then have "\<not> (\<exists>c cs. trim t = c # cs \<and> c \<in> {0xFFFD, 0xD83C, 0xDFB5,
      0xDFB6})"
    by blast
  then show "parseMusicWindowTitle t = None" by (simp add: parseMusic_None_iff)
next
  show "join_js (split_js t SEP) SEP = t" by (rule split_join)
next
  fix parts
  assume n: "\<forall>c cs. trim t = c # cs \<longrightarrow> c \<notin> {0xFFFD, 0xD83C,
      0xDFB5, 0xDFB6}"
    and p: "parts = filter (\<lambda>p. p \<noteq> []) (map trim (split_js t SEP))"
    and l: "2 \<le> length parts"
  from n have "\<not> (\<exists>c cs. trim t = c # cs \<and> c \<in> {0xFFFD, 0xD83C, 0xDFB5,
      0xDFB6})"
    by blast
  then have m: "parseMusicWindowTitle t = None" by (simp add: parseMusic_None_iff)
  from classifyTitle_not_music [of t, rule_format, OF m p, THEN conjunct1] l
  show b: "classifyTitle t = Browser (last parts) (join_js (butlast parts) SEP)"
    by simp
  then show "pcContent t =
      TXT_APP @ last parts @ TXT_NL_WINDOW_TITLE @ join_js (butlast parts) SEP"
    by (simp add: pcContent_def)
next
  fix parts
  assume n: "\<forall>c cs. trim t = c # cs \<longrightarrow> c \<notin> {0xFFFD, 0xD83C,
      0xDFB5, 0xDFB6}"
    and p: "parts = filter (\<lambda>p. p \<noteq> []) (map trim (split_js t SEP))"
    and l: "length parts < 2"
  from n have "\<not> (\<exists>c cs. trim t = c # cs \<and> c \<in> {0xFFFD, 0xD83C, 0xDFB5,
      0xDFB6})"
    by blast
  then have m: "parseMusicWindowTitle t = None" by (simp add: parseMusic_None_iff)
  from classifyTitle_not_music [of t, rule_format, OF m p, THEN conjunct2] l
  show "classifyTitle t = Plain (orElse (orEmpty (firstSegment t)) UNKNOWN) t"
    by simp
next
  assume "prefix [0xFFFD] (trim t) \<or> prefix [0xD83C, 0xDFB6] (trim t)
         \<or> prefix [0xD83C, 0xDFB5] (trim t)"
  then have "parseMusicWindowTitle t \<noteq> None" by (rule designed_start_is_music)
  then show "\<exists>a s. classifyTitle t = Music a s" by (rule classifyTitle_music)
qed

theorem browser_style_classification_witness:
  "classifyTitle ([0x77E5, 0x4E4E, 0x0020, 0x002D, 0x0020, 0x4E2A, 0x4EBA, 0x0020, 0x002D,
      0x0020, 0x004D, 0x0069, 0x0063, 0x0072, 0x006F, 0x0073, 0x006F, 0x0066, 0x0074, 0x0020,
      0x0045, 0x0064, 0x0067, 0x0065] :: jsstring) = Browser [0x004D, 0x0069, 0x0063, 0x0072,
      0x006F, 0x0073, 0x006F, 0x0066, 0x0074, 0x0020, 0x0045, 0x0064, 0x0067,
      0x0065] [0x77E5, 0x4E4E, 0x0020, 0x002D, 0x0020, 0x4E2A, 0x4EBA]
   \<and> classifyTitle ([0x8BB0, 0x4E8B, 0x672C, 0x0020, 0x002D,
       0x0020] :: jsstring) = Plain [0x8BB0, 0x4E8B, 0x672C] [0x8BB0, 0x4E8B, 0x672C, 0x0020,
       0x002D, 0x0020]
   \<and> (\<exists>a s. classifyTitle ([0xD83C, 0xDFB5, 0x6674, 0x5929, 0x0020, 0x002D,
       0x0020, 0x5468, 0x6770, 0x4F26, 0x0020, 0x002D, 0x0020, 0x0051, 0x0051, 0x97F3,
       0x4E50] :: jsstring) = Music a s)"
proof -
  let ?t = "([0x77E5, 0x4E4E, 0x0020, 0x002D, 0x0020, 0x4E2A, 0x4EBA, 0x0020, 0x002D, 0x0020,
      0x004D, 0x0069, 0x0063, 0x0072, 0x006F, 0x0073, 0x006F, 0x0066, 0x0074, 0x0020, 0x0045,
      0x0064, 0x0067, 0x0065] :: jsstring)"
  let ?u = "([0x8BB0, 0x4E8B, 0x672C, 0x0020, 0x002D, 0x0020] :: jsstring)"
  let ?v = "([0xD83C, 0xDFB5, 0x6674, 0x5929, 0x0020, 0x002D, 0x0020, 0x5468, 0x6770, 0x4F26,
      0x0020, 0x002D, 0x0020, 0x0051, 0x0051, 0x97F3, 0x4E50] :: jsstring)"
  have tt: "trim ?t = ?t" and tu: "trim ?u = [0x8BB0, 0x4E8B, 0x672C, 0x0020,
      0x002D]" and tv: "trim ?v = ?v"
    by (simp_all add: trim_def isWhiteSpace_def)
  have nt: "\<forall>c cs. trim ?t = c # cs \<longrightarrow> c \<notin> {0xFFFD, 0xD83C,
      0xDFB5, 0xDFB6}"
    unfolding tt by simp
  have nu: "\<forall>c cs. trim ?u = c # cs \<longrightarrow> c \<notin> {0xFFFD, 0xD83C,
      0xDFB5, 0xDFB6}"
    unfolding tu by simp
  have sv: "prefix [0xFFFD] (trim ?v) \<or> prefix [0xD83C, 0xDFB6] (trim ?v)
         \<or> prefix [0xD83C, 0xDFB5] (trim ?v)"
    unfolding tv by simp
  have p: "filter (\<lambda>p. p \<noteq> []) (map trim (split_js ?t SEP))
      = [[0x77E5, 0x4E4E], [0x4E2A, 0x4EBA], [0x004D, 0x0069, 0x0063, 0x0072, 0x006F, 0x0073,
          0x006F, 0x0066, 0x0074, 0x0020, 0x0045, 0x0064, 0x0067, 0x0065]]"
    by (simp add: split_js_def SEP_def trim_def isWhiteSpace_def)
  have 1: "classifyTitle ?t = Browser [0x004D, 0x0069, 0x0063, 0x0072, 0x006F, 0x0073,
      0x006F, 0x0066, 0x0074, 0x0020, 0x0045, 0x0064, 0x0067, 0x0065] [0x77E5, 0x4E4E,
      0x0020, 0x002D, 0x0020, 0x4E2A, 0x4EBA]"
    using browser_style_classification [of ?t, THEN conjunct1, THEN mp, OF nt,
        THEN conjunct2, THEN conjunct2, rule_format, OF refl, THEN conjunct1, unfolded p]
    by (simp add: SEP_def)
  have p': "filter (\<lambda>p. p \<noteq> []) (map trim (split_js ?u SEP)) = [[0x8BB0,
      0x4E8B, 0x672C]]"
    by (simp add: split_js_def SEP_def trim_def isWhiteSpace_def)
  have f: "firstSegment ?u = Some [0x8BB0, 0x4E8B, 0x672C]"
    by (simp add: firstSegment_def split_js_def SEP_def)
  have 2: "classifyTitle ?u = Plain [0x8BB0, 0x4E8B, 0x672C] [0x8BB0, 0x4E8B, 0x672C, 0x0020,
      0x002D, 0x0020]"
    using browser_style_classification [of ?u, THEN conjunct1, THEN mp, OF nu,
        THEN conjunct2, THEN conjunct2, rule_format, OF refl, THEN conjunct2, unfolded p' f]
    by (simp add: orElse_def orEmpty_def)
  have 3: "\<exists>a s. classifyTitle ?v = Music a s"
    using browser_style_classification [of ?v, THEN conjunct2, THEN mp, OF sv] .
  from 1 2 3 show ?thesis by blast
qed

text \<open>
  With the music rule in the words of the specification the classification differs: the
  title made of U+FFFD, \<open>abc\<close>, the separator and \<open>def\<close> is not a music title by
  that rule and has two non-empty trimmed segments, and it is classified as music, not
  as browser-style.
\<close>

theorem browser_style_counterexample:
  "\<not> spec_isMusicTitle ([0xFFFD] @ ascii ''abc - def'')
   \<and> filter (\<lambda>p. p \<noteq> []) (map trim (split_js ([0xFFFD] @ ascii ''abc - def'') SEP))
       = [[0xFFFD] @ ascii ''abc'', ascii ''def'']
   \<and> classifyTitle ([0xFFFD] @ ascii ''abc - def'') = Music (ascii ''abc'') (ascii ''def'')
   \<and> classifyTitle ([0xFFFD] @ ascii ''abc - def'')
       \<noteq> Browser (ascii ''def'') ([0xFFFD] @ ascii ''abc'')"
  by (simp add: ascii_def spec_isMusicTitle_def isLowSurrogate_def isHighSurrogate_def
      isWhiteSpace_def split_js_def SEP_def trim_def classifyTitle_def
      parseMusicWindowTitle_def musicClass_def trimLeadingNoise_def isLeadingNoise_def
      orElse_def Let_def)

section \<open>The advisory line\<close>

lemma eventContainsKeyword_iff:
  "eventContainsKeyword (Some p) RAINCORE_ZHIBA_KEYWORD \<longleftrightarrow>
     sublist RAINCORE_ZHIBA_KEYWORD (orEmpty (window_title p))
     \<or> sublist RAINCORE_ZHIBA_KEYWORD (orEmpty (app p))"
proof -
  have "RAINCORE_ZHIBA_KEYWORD \<noteq> []" by (simp add: RAINCORE_ZHIBA_KEYWORD_def)
  then show ?thesis by (simp add: eventContainsKeyword_def includes_js_iff)
qed

lemma suffix_last:
  assumes "suffix ZHIBA_SUFFIX x"
  shows "x \<noteq> [] \<and> last x = 0x4ED6"
proof -
  from assms obtain zs where "x = zs @ ZHIBA_SUFFIX" by (auto simp: suffix_def)
  then show ?thesis by (simp add: ZHIBA_SUFFIX_def)
qed

lemma formatPersonBlock_last:
  "formatPersonBlock clock name phoneData pcData False \<noteq> []
   \<and> last (formatPersonBlock clock name phoneData pcData False) = 0x43"
  by (cases pcData) (simp_all add: formatPersonBlock_def Let_def joinLines_def text_defs)

lemma raincore_plain: "RAINCORE \<noteq> PIMENG" "RAINCORE \<notin> set HIDE_PC_NAMES"
  by (simp_all add: RAINCORE_def PIMENG_def HIDE_PC_NAMES_def)

lemma raincore_message:
  "formatMessageByPerson clock now RAINCORE events =
     (if events = [] then TXT_OPEN @ RAINCORE @ TXT_NO_RECORD
      else if isAsleepCondition now (find (\<lambda>e. isPhoneDevice (machine e)) events)
                (find (\<lambda>e. \<not> isPhoneDevice (machine e)) events)
      then asleepMessage RAINCORE
      else if find (\<lambda>e. isPhoneDevice (machine e)) events \<noteq> None
              \<and> eventContainsKeyword (find (\<lambda>e. isPhoneDevice (machine e)) events)
                    RAINCORE_ZHIBA_KEYWORD
      then TXT_OPEN @ RAINCORE @ TXT_CLOSE
           @ formatPersonBlock clock RAINCORE (find (\<lambda>e. isPhoneDevice (machine e)) events)
               (find (\<lambda>e. \<not> isPhoneDevice (machine e)) events) False
           @ ZHIBA_SUFFIX
      else TXT_OPEN @ RAINCORE @ TXT_CLOSE
           @ formatPersonBlock clock RAINCORE (find (\<lambda>e. isPhoneDevice (machine e)) events)
               (find (\<lambda>e. \<not> isPhoneDevice (machine e)) events) False)"
  by (simp add: formatMessageByPerson_def raincore_plain Let_def)

text \<open>
  C9. For the person RAINCORE: when the first phone event among the events contains the
  keyword in its window title or in its app field, and the asleep condition does not
  hold, the message is the usual report (the name in brackets and the two blocks)
  followed by the advisory line, once: the usual report does not end with that line.
  When there is no phone event, or the phone event does not contain the keyword, the
  message does not end with the advisory line.
\<close>

theorem raincore_advisory_line:
  "(\<forall>p. find (\<lambda>e. isPhoneDevice (machine e)) events = Some p
        \<and> \<not> isAsleepCondition now (Some p) (find (\<lambda>e. \<not> isPhoneDevice (machine e)) events)
        \<and> (sublist RAINCORE_ZHIBA_KEYWORD (orEmpty (window_title p))
            \<or> sublist RAINCORE_ZHIBA_KEYWORD (orEmpty (app p)))
      \<longrightarrow> formatMessageByPerson clock now RAINCORE events =
            (TXT_OPEN @ RAINCORE @ TXT_CLOSE
             @ formatPersonBlock clock RAINCORE (Some p)
                 (find (\<lambda>e. \<not> isPhoneDevice (machine e)) events) False)
            @ ZHIBA_SUFFIX
          \<and> \<not> suffix ZHIBA_SUFFIX
               (TXT_OPEN @ RAINCORE @ TXT_CLOSE
                @ formatPersonBlock clock RAINCORE (Some p)
                    (find (\<lambda>e. \<not> isPhoneDevice (machine e)) events) False))
   \<and> ((\<forall>p. find (\<lambda>e. isPhoneDevice (machine e)) events = Some p
          \<longrightarrow> \<not> sublist RAINCORE_ZHIBA_KEYWORD (orEmpty (window_title p))
              \<and> \<not> sublist RAINCORE_ZHIBA_KEYWORD (orEmpty (app p)))
      \<longrightarrow> \<not> suffix ZHIBA_SUFFIX (formatMessageByPerson clock now RAINCORE events))"
proof (intro conjI allI impI)
  fix p
  assume h: "find (\<lambda>e. isPhoneDevice (machine e)) events = Some p
        \<and> \<not> isAsleepCondition now (Some p) (find (\<lambda>e. \<not> isPhoneDevice (machine e)) events)
        \<and> (sublist RAINCORE_ZHIBA_KEYWORD (orEmpty (window_title p))
            \<or> sublist RAINCORE_ZHIBA_KEYWORD (orEmpty (app p)))"
  then have ne: "events \<noteq> []" by auto
  from h have k: "eventContainsKeyword (Some p) RAINCORE_ZHIBA_KEYWORD"
    by (simp add: eventContainsKeyword_iff)
  from h ne k
  show "formatMessageByPerson clock now RAINCORE events =
            (TXT_OPEN @ RAINCORE @ TXT_CLOSE
             @ formatPersonBlock clock RAINCORE (Some p)
                 (find (\<lambda>e. \<not> isPhoneDevice (machine e)) events) False)
            @ ZHIBA_SUFFIX"
    by (simp add: raincore_message)
next
  fix p
  let ?b = "formatPersonBlock clock RAINCORE (Some p)
                    (find (\<lambda>e. \<not> isPhoneDevice (machine e)) events) False"
  show "\<not> suffix ZHIBA_SUFFIX (TXT_OPEN @ RAINCORE @ TXT_CLOSE @ ?b)"
  proof
    assume "suffix ZHIBA_SUFFIX (TXT_OPEN @ RAINCORE @ TXT_CLOSE @ ?b)"
    then have "last (TXT_OPEN @ RAINCORE @ TXT_CLOSE @ ?b) = 0x4ED6"
      using suffix_last by blast
    moreover have "?b \<noteq> []" and "last ?b = 0x43"
      using formatPersonBlock_last by blast+
    ultimately show False by simp
  qed
next
  assume n: "\<forall>p. find (\<lambda>e. isPhoneDevice (machine e)) events = Some p
          \<longrightarrow> \<not> sublist RAINCORE_ZHIBA_KEYWORD (orEmpty (window_title p))
              \<and> \<not> sublist RAINCORE_ZHIBA_KEYWORD (orEmpty (app p))"
  let ?ph = "find (\<lambda>e. isPhoneDevice (machine e)) events"
  let ?b = "formatPersonBlock clock RAINCORE ?ph
                    (find (\<lambda>e. \<not> isPhoneDevice (machine e)) events) False"
  have nk: "\<not> (?ph \<noteq> None \<and> eventContainsKeyword ?ph RAINCORE_ZHIBA_KEYWORD)"
  proof (cases ?ph)
    case None
    then show ?thesis by simp
  next
    case (Some p)
    with n show ?thesis by (simp add: eventContainsKeyword_iff)
  qed
  have b: "?b \<noteq> []" "last ?b = 0x43"
    using formatPersonBlock_last by blast+
  have msg: "formatMessageByPerson clock now RAINCORE events =
      (if events = [] then TXT_OPEN @ RAINCORE @ TXT_NO_RECORD
       else if isAsleepCondition now ?ph (find (\<lambda>e. \<not> isPhoneDevice (machine e)) events)
       then asleepMessage RAINCORE
       else TXT_OPEN @ RAINCORE @ TXT_CLOSE @ ?b)"
    unfolding raincore_message by (simp only: nk if_False)
  have "last (formatMessageByPerson clock now RAINCORE events) \<noteq> 0x4ED6"
    unfolding msg using b by (simp add: asleepMessage_def text_defs)
  then show "\<not> suffix ZHIBA_SUFFIX (formatMessageByPerson clock now RAINCORE events)"
    using suffix_last by blast
qed


theorem raincore_advisory_line_witness:
  "formatMessageByPerson (\<lambda>t. (0, 1, 0, 0)) 1700000000000 RAINCORE
      [\<lparr>machine = Some (ascii ''Android-1''), window_title = None,
        app = Some [0x8303, 0x5F0F, 0xFF1A, 0x8D77, 0x6E90, 0x0020, 0x002D, 0x0020, 0x0063,
            0x006F, 0x006D, 0x002E, 0x0068, 0x0079, 0x0070, 0x0065, 0x0072, 0x0067, 0x0072,
            0x0079, 0x0070, 0x0068], access_time = NoTime\<rparr>]
     = (TXT_OPEN @ RAINCORE @ TXT_CLOSE
        @ formatPersonBlock (\<lambda>t. (0, 1, 0, 0)) RAINCORE
            (Some \<lparr>machine = Some (ascii ''Android-1''), window_title = None,
                   app = Some [0x8303, 0x5F0F, 0xFF1A, 0x8D77, 0x6E90, 0x0020, 0x002D,
                       0x0020, 0x0063, 0x006F, 0x006D, 0x002E, 0x0068, 0x0079, 0x0070,
                       0x0065, 0x0072, 0x0067, 0x0072, 0x0079, 0x0070, 0x0068],
                       access_time = NoTime\<rparr>)
            None False)
       @ ZHIBA_SUFFIX
   \<and> \<not> suffix ZHIBA_SUFFIX
        (formatMessageByPerson (\<lambda>t. (0, 1, 0, 0)) 1700000000000 RAINCORE
           [\<lparr>machine = Some (ascii ''Android-1''), window_title = Some [0x5FAE, 0x4FE1],
             app = None, access_time = NoTime\<rparr>])"
proof -
  let ?e = "\<lparr>machine = Some (ascii ''Android-1''), window_title = None,
        app = Some [0x8303, 0x5F0F, 0xFF1A, 0x8D77, 0x6E90, 0x0020, 0x002D, 0x0020, 0x0063,
            0x006F, 0x006D, 0x002E, 0x0068, 0x0079, 0x0070, 0x0065, 0x0072, 0x0067, 0x0072,
            0x0079, 0x0070, 0x0068], access_time = NoTime\<rparr>"
  let ?f = "\<lparr>machine = Some (ascii ''Android-1''), window_title = Some [0x5FAE, 0x4FE1],
             app = None, access_time = NoTime\<rparr>"
  have ph: "isPhoneDevice (Some (ascii ''Android-1''))"
    by (simp add: isPhoneDevice_def PHONE_WORDS_def ascii_def toLowerAscii_def)
  then have fe: "find (\<lambda>e. isPhoneDevice (machine e)) [?e] = Some ?e"
    and pe: "find (\<lambda>e. \<not> isPhoneDevice (machine e)) [?e] = None"
    and ff: "find (\<lambda>e. isPhoneDevice (machine e)) [?f] = Some ?f"
    by simp_all
  have an: "getAppNameFromEvent (Some ?e) = [0x8303, 0x5F0F, 0xFF1A, 0x8D77, 0x6E90]"
    by (simp add: getAppNameFromEvent_def orEmpty_def trim_def isWhiteSpace_def
        firstSegment_def split_js_def SEP_def)
  have na: "\<not> isAsleepCondition 1700000000000 (Some ?e) None"
    by (simp add: isAsleepCondition_def an isScreenOffApp_def SCREEN_OFF_APPS_def trim_def
        isWhiteSpace_def)
  have kw: "sublist RAINCORE_ZHIBA_KEYWORD (orEmpty (app ?e))"
    by (simp add: RAINCORE_ZHIBA_KEYWORD_def orEmpty_def sublist_code)
  have nk: "\<not> sublist RAINCORE_ZHIBA_KEYWORD (orEmpty (window_title ?f))
      \<and> \<not> sublist RAINCORE_ZHIBA_KEYWORD (orEmpty (app ?f))"
    by (simp add: RAINCORE_ZHIBA_KEYWORD_def orEmpty_def sublist_code)
  have 1: "formatMessageByPerson (\<lambda>t. (0, 1, 0, 0)) 1700000000000 RAINCORE [?e]
     = (TXT_OPEN @ RAINCORE @ TXT_CLOSE
        @ formatPersonBlock (\<lambda>t. (0, 1, 0, 0)) RAINCORE (Some ?e) None False) @ ZHIBA_SUFFIX"
    using raincore_advisory_line [of "[?e]" 1700000000000 "\<lambda>t. (0, 1, 0, 0)",
        THEN conjunct1, rule_format, of ?e] fe pe na kw
    by simp
  have 2: "\<not> suffix ZHIBA_SUFFIX
        (formatMessageByPerson (\<lambda>t. (0, 1, 0, 0)) 1700000000000 RAINCORE [?f])"
    using raincore_advisory_line [of "[?f]" 1700000000000 "\<lambda>t. (0, 1, 0, 0)",
        THEN conjunct2] ff nk
    by simp
  from 1 2 show ?thesis by blast
qed


section \<open>Counting heartbeats\<close>

lemma tally_sum: "sum_list (map snd (tally t k)) = sum_list (map snd t) + 1"
  by (induction t k rule: tally.induct) simp_all

lemma foldl_tally_sum:
  "sum_list (map snd (foldl tally t ks)) = sum_list (map snd t) + length ks"
  by (induction ks arbitrary: t) (simp_all add: tally_sum)

lemma count_le_total:
  assumes "(k, n) \<in> set (foldl tally [] ks)"
  shows "n \<le> length ks"
proof -
  from assms have "n \<in> set (map snd (foldl tally [] ks))" by force
  then have "n \<le> sum_list (map snd (foldl tally [] ks))" by (simp add: member_le_sum_list)
  then show ?thesis by (simp add: foldl_tally_sum)
qed

lemma set_objectEntries: "set (objectEntries t) = set t"
  by (auto simp: objectEntries_def)

lemma sortedBuckets_member:
  assumes "b \<in> set (sortedBuckets rnd hb evs isPhone)"
  shows "bucket_count b \<le> length evs"
    and "bucket_seconds b = fmul rnd (real (bucket_count b)) hb"
proof -
  let ?ks = "map (\<lambda>ev. getAppNameForStats (Some ev) isPhone) evs"
  from assms obtain k n where kn: "(k, n) \<in> set (foldl tally [] ?ks)"
    and b: "b = \<lparr>bucket_app = k, bucket_count = n, bucket_seconds = fmul rnd (real n) hb\<rparr>"
    by (auto simp: sortedBuckets_def Let_def set_objectEntries)
  from count_le_total [OF kn] b show "bucket_count b \<le> length evs" by simp
  from b show "bucket_seconds b = fmul rnd (real (bucket_count b)) hb" by simp
qed

section \<open>Shares\<close>

lemma heartbeatSec_pos: "0 < heartbeatSec cfg"
  by (simp add: heartbeatSec_def HEARTBEAT_INTERVAL_SECONDS_def split: option.splits)

lemma elapsed_pos: "1 \<le> elapsedSecondsAt nowMs"
  by (simp add: elapsedSecondsAt_def)

lemma tenths_bound: "0 \<le> p \<Longrightarrow> p \<le> 100 \<Longrightarrow> tenths p \<le> 1000"
proof -
  assume "0 \<le> p" "p \<le> 100"
  then have "\<bar>p\<bar> * 10 + 1 / 2 < 1001" by simp
  then have "\<lfloor>\<bar>p\<bar> * 10 + 1 / 2\<rfloor> \<le> 1000" by linarith
  then show ?thesis unfolding tenths_def by linarith
qed

lemma bucket_share:
  assumes m: "mono rnd" and r0: "rnd 0 = 0" and r1: "rnd 1 = 1" and r100: "rnd 100 = 100"
    and hb: "0 < hb" and le: "n \<le> tot"
    and p: "bucketPercent rnd (fmul rnd (real n) hb) (fmul rnd (real tot) hb) = Some p"
  shows "0 \<le> p \<and> p \<le> 100"
proof -
  let ?s = "rnd (real n * hb)" and ?c = "rnd (real tot * hb)"
  from p have c: "0 < ?c" and pe: "p = rnd (rnd (?s / ?c) * 100)"
    by (auto simp: bucketPercent_def fmul_def fdiv_def split: if_splits)
  from hb have "0 \<le> real n * hb" by simp
  with m r0 have s0: "0 \<le> ?s" by (metis monoD)
  from hb le have "real n * hb \<le> real tot * hb" by simp
  with m have sc: "?s \<le> ?c" by (rule monoD)
  from s0 c have "0 \<le> ?s / ?c" by simp
  with m r0 have q0: "0 \<le> rnd (?s / ?c)" by (metis monoD)
  from sc c have "?s / ?c \<le> 1" by simp
  with m r1 have q1: "rnd (?s / ?c) \<le> 1" by (metis monoD)
  from q0 have "0 \<le> rnd (?s / ?c) * 100" by simp
  with m r0 have "0 \<le> p" unfolding pe by (metis monoD)
  moreover from q1 have "rnd (?s / ?c) * 100 \<le> 100" by simp
  with m r100 have "p \<le> 100" unfolding pe by (metis monoD)
  ultimately show ?thesis by simp
qed

lemma covered_nonneg:
  assumes "mono rnd" and "rnd 0 = 0" and "0 < hb"
  shows "0 \<le> block_coveredSeconds (buildDeviceBlock rnd hb el evs label)"
proof (cases "evs = []")
  case True
  then show ?thesis by (simp add: buildDeviceBlock_def)
next
  case False
  from assms(3) have "0 \<le> real (length evs) * hb" by simp
  with assms(1,2) have "0 \<le> rnd (real (length evs) * hb)" by (metis monoD)
  with False show ?thesis by (simp add: buildDeviceBlock_def Let_def fmul_def)
qed

lemma totalPercent_range:
  assumes m: "mono rnd" and r0: "rnd 0 = 0" and el: "0 < el"
    and a: "0 \<le> block_coveredSeconds pb" and b: "0 \<le> block_coveredSeconds cb"
  shows "0 \<le> totalPercent rnd el pb cb \<and> totalPercent rnd el pb cb \<le> 100"
proof -
  let ?t = "rnd (block_coveredSeconds pb + block_coveredSeconds cb)"
  from a b have "0 \<le> block_coveredSeconds pb + block_coveredSeconds cb" by simp
  with m r0 have "0 \<le> ?t" by (metis monoD)
  with el have "0 \<le> ?t / el" by simp
  with m r0 have "0 \<le> rnd (?t / el)" by (metis monoD)
  then have "0 \<le> rnd (?t / el) * 100" by simp
  with m r0 have "0 \<le> rnd (rnd (?t / el) * 100)" by (metis monoD)
  then show ?thesis by (simp add: totalPercent_def Let_def fadd_def fdiv_def fmul_def)
qed


text \<open>
  C7. With a rounding that is monotone and leaves 0, 1 and 100 as they are, no share of
  the daily report is above 100: the share of a bucket (its seconds by the covered
  seconds of its device, times 100) is at most 100 and is shown as at most 1000 tenths,
  the share of a device up to now and the total share are capped at 100, whatever the
  number of events and the elapsed time are.
\<close>

theorem percentages_never_exceed_100:
  "mono rnd \<and> rnd 0 = 0 \<and> rnd 1 = 1 \<and> rnd 100 = 100 \<longrightarrow>
     (\<forall>b \<in> set (sortedBuckets rnd (heartbeatSec cfg) deviceEvents isPhone).
        \<forall>p. bucketPercent rnd (bucket_seconds b)
               (fmul rnd (real (length deviceEvents)) (heartbeatSec cfg)) = Some p
          \<longrightarrow> p \<le> 100 \<and> tenths p \<le> 1000)
     \<and> (\<forall>p. block_percentToNow
               (buildDeviceBlock rnd (heartbeatSec cfg) el deviceEvents label) = Some p
          \<longrightarrow> p \<le> 100)
     \<and> (\<forall>p. block_percentOfDay
               (buildDeviceBlock rnd (heartbeatSec cfg) el deviceEvents label) = Some p
          \<longrightarrow> p \<le> 100)
     \<and> totalPercent rnd (real_of_int (elapsedSecondsAt nowMs))
         (buildDeviceBlock rnd (heartbeatSec cfg) (real_of_int (elapsedSecondsAt nowMs))
            phoneEvents phoneLabel)
         (buildDeviceBlock rnd (heartbeatSec cfg) (real_of_int (elapsedSecondsAt nowMs))
            pcEvents pcLabel) \<le> 100
     \<and> tenths (totalPercent rnd (real_of_int (elapsedSecondsAt nowMs))
         (buildDeviceBlock rnd (heartbeatSec cfg) (real_of_int (elapsedSecondsAt nowMs))
            phoneEvents phoneLabel)
         (buildDeviceBlock rnd (heartbeatSec cfg) (real_of_int (elapsedSecondsAt nowMs))
            pcEvents pcLabel)) \<le> 1000"
proof (intro impI, elim conjE, intro conjI ballI allI impI)
  fix b p
  assume m: "mono rnd" and r0: "rnd 0 = 0" and r1: "rnd 1 = 1" and r100: "rnd 100 = 100"
    and b: "b \<in> set (sortedBuckets rnd (heartbeatSec cfg) deviceEvents isPhone)"
    and p: "bucketPercent rnd (bucket_seconds b)
               (fmul rnd (real (length deviceEvents)) (heartbeatSec cfg)) = Some p"
  from sortedBuckets_member [OF b]
  have le: "bucket_count b \<le> length deviceEvents"
    and s: "bucket_seconds b = fmul rnd (real (bucket_count b)) (heartbeatSec cfg)"
    by simp_all
  from p have "bucketPercent rnd (fmul rnd (real (bucket_count b)) (heartbeatSec cfg))
               (fmul rnd (real (length deviceEvents)) (heartbeatSec cfg)) = Some p"
    by (simp only: s)
  from bucket_share [OF m r0 r1 r100 heartbeatSec_pos le this]
  have range: "0 \<le> p \<and> p \<le> 100" .
  then show "p \<le> 100" by simp
  from range show "tenths p \<le> 1000" by (simp add: tenths_bound)
next
  fix p
  assume "block_percentToNow
               (buildDeviceBlock rnd (heartbeatSec cfg) el deviceEvents label) = Some p"
  then show "p \<le> 100"
    by (auto simp: buildDeviceBlock_def Let_def split: if_splits)
next
  fix p
  assume "block_percentOfDay
               (buildDeviceBlock rnd (heartbeatSec cfg) el deviceEvents label) = Some p"
  then show "p \<le> 100"
    by (auto simp: buildDeviceBlock_def Let_def split: if_splits)
next
  show "totalPercent rnd (real_of_int (elapsedSecondsAt nowMs))
         (buildDeviceBlock rnd (heartbeatSec cfg) (real_of_int (elapsedSecondsAt nowMs))
            phoneEvents phoneLabel)
         (buildDeviceBlock rnd (heartbeatSec cfg) (real_of_int (elapsedSecondsAt nowMs))
            pcEvents pcLabel) \<le> 100"
    by (simp add: totalPercent_def Let_def)
next
  assume m: "mono rnd" and r0: "rnd 0 = 0"
  let ?el = "real_of_int (elapsedSecondsAt nowMs)"
  have el: "0 < ?el" using elapsed_pos [of nowMs] by simp
  from totalPercent_range [OF m r0 el
      covered_nonneg [OF m r0 heartbeatSec_pos] covered_nonneg [OF m r0 heartbeatSec_pos]]
  show "tenths (totalPercent rnd ?el
         (buildDeviceBlock rnd (heartbeatSec cfg) ?el phoneEvents phoneLabel)
         (buildDeviceBlock rnd (heartbeatSec cfg) ?el pcEvents pcLabel)) \<le> 1000"
    by (simp add: tenths_bound)
qed

theorem percentages_never_exceed_100_witness:
  "sortedBuckets (\<lambda>x. x) (heartbeatSec (Some 60))
      [\<lparr>machine = None, window_title = Some [0x5FAE, 0x4FE1], app = None,
          access_time = NoTime\<rparr>,
       \<lparr>machine = None, window_title = Some [0x77E5, 0x4E4E], app = None,
           access_time = NoTime\<rparr>,
       \<lparr>machine = None, window_title = Some [0x5FAE, 0x4FE1], app = None,
           access_time = NoTime\<rparr>] True
     = [\<lparr>bucket_app = [0x5FAE, 0x4FE1], bucket_count = 2, bucket_seconds = 120\<rparr>,
        \<lparr>bucket_app = [0x77E5, 0x4E4E], bucket_count = 1, bucket_seconds = 60\<rparr>]
   \<and> bucketPercent (\<lambda>x. x) 120 180 = Some (200 / 3)
   \<and> (200 / 3 :: real) \<le> 100 \<and> tenths (200 / 3) \<le> 1000"
proof -
  let ?x = "\<lparr>machine = None, window_title = Some [0x5FAE, 0x4FE1], app = None,
      access_time = NoTime\<rparr>"
  let ?y = "\<lparr>machine = None, window_title = Some [0x77E5, 0x4E4E], app = None,
      access_time = NoTime\<rparr>"
  let ?b = "\<lparr>bucket_app = [0x5FAE, 0x4FE1], bucket_count = 2,
      bucket_seconds = 120\<rparr>"
  have kx: "getAppNameForStats (Some ?x) True = [0x5FAE, 0x4FE1]"
    by (simp add: getAppNameForStats_def orEmpty_def orElse_def trim_def isWhiteSpace_def
        firstSegment_def split_js_def SEP_def parseMusicWindowTitle_def musicClass_def
        trimLeadingNoise_def isLeadingNoise_def)
  have ky: "getAppNameForStats (Some ?y) True = [0x77E5, 0x4E4E]"
    by (simp add: getAppNameForStats_def orEmpty_def orElse_def trim_def isWhiteSpace_def
        firstSegment_def split_js_def SEP_def parseMusicWindowTitle_def musicClass_def
        trimLeadingNoise_def isLeadingNoise_def)
  have ix: "arrayIndex [0x5FAE, 0x4FE1] = None" and iy: "arrayIndex [0x77E5, 0x4E4E] = None"
    by (simp_all add: arrayIndex_def)
  have sb: "sortedBuckets (\<lambda>x. x) (heartbeatSec (Some 60)) [?x, ?y, ?x] True
     = [?b, \<lparr>bucket_app = [0x77E5, 0x4E4E], bucket_count = 1,
         bucket_seconds = 60\<rparr>]"
    by (simp add: sortedBuckets_def kx ky objectEntries_def ix iy fmul_def heartbeatSec_def)
  have bp: "bucketPercent (\<lambda>x. x) (bucket_seconds ?b)
      (fmul (\<lambda>x. x) (real (length [?x, ?y, ?x])) (heartbeatSec (Some 60))) = Some (200 / 3)"
    by (simp add: bucketPercent_def fmul_def fdiv_def heartbeatSec_def)
  have hyp: "mono (\<lambda>x :: real. x) \<and> (\<lambda>x :: real. x) 0 = 0 \<and> (\<lambda>x :: real. x) 1 = 1
      \<and> (\<lambda>x :: real. x) 100 = 100"
    by (simp add: mono_def)
  have mem: "?b \<in> set (sortedBuckets (\<lambda>x. x) (heartbeatSec (Some 60)) [?x, ?y, ?x] True)"
    unfolding sb by simp
  from percentages_never_exceed_100 [of "\<lambda>x. x" "Some 60" "[?x, ?y, ?x]" True,
      THEN mp, OF hyp, THEN conjunct1, rule_format, OF mem bp]
  have "(200 / 3 :: real) \<le> 100 \<and> tenths (200 / 3) \<le> 1000" .
  moreover have "bucketPercent (\<lambda>x. x) 120 180 = Some (200 / 3)"
    by (simp add: bucketPercent_def fmul_def fdiv_def)
  ultimately show ?thesis using sb by blast
qed


section \<open>A device without events\<close>

lemma digit_not_triangle: "n < 10 \<Longrightarrow> (0x30 + of_nat n :: 16 word) \<noteq> 0x25B6"
proof
  assume n: "n < 10" and e: "(0x30 + of_nat n :: 16 word) = 0x25B6"
  from e have "(of_nat n :: 16 word) = 0x25B6 - 0x30"
    by (simp add: eq_diff_eq add.commute)
  then have "unat (of_nat n :: 16 word) = unat (0x2586 :: 16 word)"
    by simp
  with n show False
    by (simp add: unat_of_nat)
qed

lemma showNat_hd: "showNat n \<noteq> [] \<and> hd (showNat n) \<noteq> 0x25B6"
proof (induction n rule: showNat.induct)
  case (1 n)
  show ?case
  proof (cases "n < 10")
    case True
    then have "showNat n = [0x30 + of_nat n]" by (subst showNat.simps) simp
    with digit_not_triangle [OF True] show ?thesis by simp
  next
    case False
    then have "showNat n = showNat (n div 10) @ [0x30 + of_nat (n mod 10)]"
      by (subst showNat.simps) simp
    with 1 [OF False] show ?thesis by simp
  qed
qed

lemma bucketLine_not_header: "bucketLine rnd covered i item \<noteq> TXT_TRIANGLE @ label"
proof
  assume "bucketLine rnd covered i item = TXT_TRIANGLE @ label"
  then have "hd (bucketLine rnd covered i item) = 0x25B6" by (simp add: text_defs)
  with showNat_hd [of "i + 1"] show False by (simp add: bucketLine_def)
qed

lemma header_not_in_other_block:
  assumes "label \<noteq> label'"
  shows "TXT_TRIANGLE @ label' \<notin> set (block_lines (buildDeviceBlock rnd hb el evs label))"
  using assms bucketLine_not_header [of rnd _ _ _ label', symmetric]
  by (auto simp: buildDeviceBlock_def Let_def)

text \<open>
  C8. A device without events gives no lines and zero covered seconds. The lines of the
  report after its first sentence are the lines of the phone block followed by those of
  the desktop block, so that without desktop events they are the lines of the phone
  block, the same as with desktop events, and the header of the desktop section is not
  among the lines of the report; and the same with the two devices exchanged.
\<close>

theorem empty_device_has_no_section:
  "buildDeviceBlock rnd hb el [] label =
      \<lparr>block_lines = [], block_coveredSeconds = 0, block_percentOfDay = Some 0,
       block_percentToNow = None\<rparr>
   \<and> tl (todayLines rnd hb el name phoneEvents pcEvents) =
       block_lines (buildDeviceBlock rnd hb el phoneEvents TXT_PHONE_LABEL)
       @ block_lines (buildDeviceBlock rnd hb el pcEvents TXT_PC_LABEL)
   \<and> tl (todayLines rnd hb el name phoneEvents []) =
       block_lines (buildDeviceBlock rnd hb el phoneEvents TXT_PHONE_LABEL)
   \<and> tl (todayLines rnd hb el name [] pcEvents) =
       block_lines (buildDeviceBlock rnd hb el pcEvents TXT_PC_LABEL)
   \<and> TXT_TRIANGLE @ TXT_PC_LABEL \<notin> set (todayLines rnd hb el name phoneEvents [])
   \<and> TXT_TRIANGLE @ TXT_PHONE_LABEL \<notin> set (todayLines rnd hb el name [] pcEvents)"
proof (intro conjI)
  show e: "buildDeviceBlock rnd hb el [] label =
      \<lparr>block_lines = [], block_coveredSeconds = 0, block_percentOfDay = Some 0,
       block_percentToNow = None\<rparr>" for label
    by (simp add: buildDeviceBlock_def)
  show "tl (todayLines rnd hb el name phoneEvents pcEvents) =
       block_lines (buildDeviceBlock rnd hb el phoneEvents TXT_PHONE_LABEL)
       @ block_lines (buildDeviceBlock rnd hb el pcEvents TXT_PC_LABEL)"
    by (simp add: todayLines_def Let_def)
  show "tl (todayLines rnd hb el name phoneEvents []) =
       block_lines (buildDeviceBlock rnd hb el phoneEvents TXT_PHONE_LABEL)"
    by (simp add: todayLines_def Let_def e)
  show "tl (todayLines rnd hb el name [] pcEvents) =
       block_lines (buildDeviceBlock rnd hb el pcEvents TXT_PC_LABEL)"
    by (simp add: todayLines_def Let_def e)
  have pc: "TXT_TRIANGLE @ TXT_PC_LABEL \<notin> set (block_lines (buildDeviceBlock rnd hb el phoneEvents TXT_PHONE_LABEL))"
    by (rule header_not_in_other_block) (simp add: text_defs)
  have ph: "TXT_TRIANGLE @ TXT_PHONE_LABEL \<notin> set (block_lines (buildDeviceBlock rnd hb el pcEvents TXT_PC_LABEL))"
    by (rule header_not_in_other_block) (simp add: text_defs)
  have long: "TXT_TRIANGLE @ l \<noteq> name @ TXT_TODAY_SO_FAR @ rest" if "length l = 2" for l rest
  proof
    assume "TXT_TRIANGLE @ l = name @ TXT_TODAY_SO_FAR @ rest"
    then have "length (TXT_TRIANGLE @ l) = length (name @ TXT_TODAY_SO_FAR @ rest)"
      by (rule arg_cong)
    then have "1 + length l = length name + 7 + length rest" by (simp add: text_defs)
    with that show False by arith
  qed
  have two: "length TXT_PC_LABEL = 2" "length TXT_PHONE_LABEL = 2"
    by (simp_all add: text_defs)
  from pc long [of "TXT_PC_LABEL"] two
  show "TXT_TRIANGLE @ TXT_PC_LABEL \<notin> set (todayLines rnd hb el name phoneEvents [])"
    by (simp add: todayLines_def Let_def e)
  from ph long [of "TXT_PHONE_LABEL"] two
  show "TXT_TRIANGLE @ TXT_PHONE_LABEL \<notin> set (todayLines rnd hb el name [] pcEvents)"
    by (simp add: todayLines_def Let_def e)
qed


lemma showNat_digit: "n < 10 \<Longrightarrow> showNat n = [0x30 + of_nat n]"
  by (subst showNat.simps) simp

lemma showNat_step: "10 \<le> n \<Longrightarrow> showNat n = showNat (n div 10) @ [0x30 + of_nat (n mod 10)]"
  by (subst showNat.simps) simp

theorem empty_device_has_no_section_witness:
  "tl (todayLines (\<lambda>x. x) 60 3600 [0x96E8, 0x6838]
        (replicate 5 \<lparr>machine = None, window_title = Some [0x5FAE, 0x4FE1],
                        app = None, access_time = NoTime\<rparr>) [])
     = [[0x25B6, 0x624B, 0x673A], [0x0031, 0x002E, 0x5FAE, 0x4FE1, 0x0020, 0x7528, 0x4E86,
         0x0035, 0x5206, 0x949F, 0x0020, 0x5360, 0x6BD4, 0x0031, 0x0030, 0x0030, 0x002E,
         0x0030, 0x0025]]
   \<and> hd (todayLines (\<lambda>x. x) 60 3600 [0x96E8, 0x6838]
        (replicate 5 \<lparr>machine = None, window_title = Some [0x5FAE, 0x4FE1],
                        app = None, access_time = NoTime\<rparr>) [])
     = [0x96E8, 0x6838, 0x4ECA, 0x5929, 0x622A, 0x6B62, 0x76EE, 0x524D, 0x6709, 0x0038,
         0x002E, 0x0033, 0x0025, 0x7684, 0x65F6, 0x95F4, 0x90FD, 0x88AB, 0x6211, 0x89C6,
         0x5978, 0x5230, 0x4E86, 0x5462, 0x0020, 0x8FD9, 0x662F, 0x4ED6, 0x7684, 0x8BBE,
         0x5907, 0x4ECA, 0x5929, 0x7684, 0x4F7F, 0x7528, 0x60C5, 0x51B5]"
proof -
  let ?x = "\<lparr>machine = None, window_title = Some [0x5FAE, 0x4FE1],
                        app = None, access_time = NoTime\<rparr>"
  have kx: "getAppNameForStats (Some ?x) True = [0x5FAE, 0x4FE1]"
    by (simp add: getAppNameForStats_def orEmpty_def orElse_def trim_def isWhiteSpace_def
        firstSegment_def split_js_def SEP_def parseMusicWindowTitle_def musicClass_def
        trimLeadingNoise_def isLeadingNoise_def)
  have ix: "arrayIndex [0x5FAE, 0x4FE1] = None"
    by (simp add: arrayIndex_def)
  have r: "replicate 5 ?x = [?x, ?x, ?x, ?x, ?x]"
    by (simp add: numeral_eq_Suc)
  have sb: "sortedBuckets (\<lambda>x. x) 60 (replicate 5 ?x) True
     = [\<lparr>bucket_app = [0x5FAE, 0x4FE1], bucket_count = 5, bucket_seconds = 300\<rparr>]"
    unfolding r by (simp add: sortedBuckets_def kx objectEntries_def ix fmul_def)
  have fd: "formatDuration (\<lambda>x. x) 300 = [0x0035, 0x5206, 0x949F]"
    by (simp add: formatDuration_def fdiv_def jsRem_def showInt_def showNat_digit text_defs)
  have t1: "tenths 100 = 1000" and t2: "tenths (25 / 3) = 83"
    by (simp_all add: tenths_def)
  have s100: "showNat 100 = [0x0031, 0x0030, 0x0030]"
    by (simp add: showNat_step showNat_digit)
  have f1: "toFixed1 100 = [0x0031, 0x0030, 0x0030, 0x002E, 0x0030]"
    by (simp add: toFixed1_def t1 s100 showNat_digit)
  have f2: "toFixed1 (25 / 3) = [0x0038, 0x002E, 0x0033]"
    by (simp add: toFixed1_def t2 showNat_digit)
  have ad: "ascii ''.'' = [0x2E]" "ascii ''%'' = [0x25]"
    by (simp_all add: ascii_def)
  have bl: "block_lines (buildDeviceBlock (\<lambda>x. x) 60 3600 (replicate 5 ?x) TXT_PHONE_LABEL)
     = [[0x25B6, 0x624B, 0x673A], [0x0031, 0x002E, 0x5FAE, 0x4FE1, 0x0020, 0x7528, 0x4E86,
         0x0035, 0x5206, 0x949F, 0x0020, 0x5360, 0x6BD4, 0x0031, 0x0030, 0x0030, 0x002E,
         0x0030, 0x0025]]"
    unfolding buildDeviceBlock_def Let_def
    by (simp add: sb bucketLine_def fd bucketPercent_def fmul_def fdiv_def percentText_def f1
        showNat_digit ad text_defs)
  have cov: "block_coveredSeconds (buildDeviceBlock (\<lambda>x. x) 60 3600 (replicate 5 ?x) TXT_PHONE_LABEL) = 300"
    by (simp add: buildDeviceBlock_def Let_def fmul_def)
  from empty_device_has_no_section [of "\<lambda>x. x" 60 3600 "TXT_PC_LABEL" "[0x96E8,
      0x6838]" "replicate 5 ?x" "[]"]
  have e: "buildDeviceBlock (\<lambda>x. x) 60 3600 [] TXT_PC_LABEL =
      \<lparr>block_lines = [], block_coveredSeconds = 0, block_percentOfDay = Some 0,
       block_percentToNow = None\<rparr>"
    and t: "tl (todayLines (\<lambda>x. x) 60 3600 [0x96E8, 0x6838] (replicate 5 ?x) []) =
       block_lines (buildDeviceBlock (\<lambda>x. x) 60 3600 (replicate 5 ?x) TXT_PHONE_LABEL)"
    by blast+
  have tp: "totalPercent (\<lambda>x. x) 3600
      (buildDeviceBlock (\<lambda>x. x) 60 3600 (replicate 5 ?x) TXT_PHONE_LABEL)
      (buildDeviceBlock (\<lambda>x. x) 60 3600 [] TXT_PC_LABEL) = 25 / 3"
    by (simp add: totalPercent_def Let_def e cov fadd_def fdiv_def fmul_def)
  have h: "hd (todayLines (\<lambda>x. x) 60 3600 [0x96E8, 0x6838] (replicate 5 ?x) [])
     = [0x96E8, 0x6838, 0x4ECA, 0x5929, 0x622A, 0x6B62, 0x76EE, 0x524D, 0x6709, 0x0038,
         0x002E, 0x0033, 0x0025, 0x7684, 0x65F6, 0x95F4, 0x90FD, 0x88AB, 0x6211, 0x89C6,
         0x5978, 0x5230, 0x4E86, 0x5462, 0x0020, 0x8FD9, 0x662F, 0x4ED6, 0x7684, 0x8BBE,
         0x5907, 0x4ECA, 0x5929, 0x7684, 0x4F7F, 0x7528, 0x60C5, 0x51B5]"
    unfolding todayLines_def Let_def tp
    by (simp add: f2 text_defs)
  from t bl h show ?thesis by simp
qed

end
